theory Spec2Isabelle
  imports Complex_Main
begin

section \<open>JavaScript values\<close>

text \<open>
  The values the layer stores and hands around. A JavaScript number is an IEEE 754
  double; the finite doubles are modelled as reals. Comparisons, \<open>Math.max\<close> and
  \<open>Math.min\<close> are exact on doubles; addition and subtraction round their result
  (\<open>double_round\<close> below). NaN and the infinities are not values of the model, apart
  from the literal \<open>Infinity\<close> of \<open>getMaxZoom\<close> (see \<open>number\<close>).
\<close>

datatype jsval = JUndefined | JNull | JBool bool | JNum real | JStr string

text \<open>
  Modelled from the spec: \<open>isNil\<close> of core/util is not under src/; a value is nil when it
  is undefined or null.
\<close>

fun isNil :: "jsval \<Rightarrow> bool" where
  "isNil JUndefined = True"
| "isNil JNull = True"
| "isNil _ = False"

text \<open>
  Modelled from the spec: \<open>isNumber\<close> of core/util is not under src/; it holds of the
  values of type number.
\<close>

fun isNumber :: "jsval \<Rightarrow> bool" where
  "isNumber (JNum _) = True"
| "isNumber _ = False"

text \<open>Truthiness, as \<open>if (v)\<close>, \<open>!v\<close> and \<open>v || d\<close> read a value.\<close>

fun truthy :: "jsval \<Rightarrow> bool" where
  "truthy JUndefined = False"
| "truthy JNull = False"
| "truthy (JBool b) = b"
| "truthy (JNum r) = (r \<noteq> 0)"
| "truthy (JStr s) = (s \<noteq> [])"

text \<open>
  A numeric option that may be nil (\<open>minZoom\<close>, \<open>maxZoom\<close>, \<open>zIndex\<close>) is a
  \<open>real option\<close>: \<open>None\<close> stands for undefined and for null, which the code never
  tells apart on these (it reads them through \<open>isNil\<close> and \<open>||\<close> only).
\<close>

text \<open>\<open>x || 0\<close> on a nullable number: nil and 0 are falsy.\<close>

fun or_zero :: "real option \<Rightarrow> real" where
  "or_zero None = 0"
| "or_zero (Some r) = (if r \<noteq> 0 then r else 0)"

text \<open>Numbers extended by the literal \<open>Infinity\<close>, and \<open>Math.min\<close>, \<open>Math.max\<close> on them.\<close>

datatype number = Fin real | Infinity

fun Math_min :: "number \<Rightarrow> number \<Rightarrow> number" where
  "Math_min (Fin a) (Fin b) = Fin (if b < a then b else a)"
| "Math_min (Fin a) Infinity = Fin a"
| "Math_min Infinity b = b"

fun Math_max :: "real \<Rightarrow> real \<Rightarrow> real" where
  "Math_max a b = (if a < b then b else a)"

text \<open>
  Rounding a real to the nearest double, ties to the even significand (the IEEE 754
  default): with \<open>e\<close> the binary exponent of \<open>y\<close> (at least that of the subnormals),
  the doubles around \<open>y\<close> are the multiples of \<open>2 powi (e - 52)\<close>. A sum or difference
  with 1 of a finite double never overflows, so no infinity arises where the layer adds.
\<close>

definition double_round :: "real \<Rightarrow> real" where
  "double_round y =
     (if y = 0 then 0
      else let e = max \<lfloor>log 2 \<bar>y\<bar>\<rfloor> (- 1022);
               ulp = 2 powi (e - 52);
               q = \<bar>y\<bar> / ulp;
               n = \<lfloor>q\<rfloor>;
               m = (if q - of_int n < 1 / 2 then n
                    else if 1 / 2 < q - of_int n then n + 1
                    else if even n then n else n + 1)
           in sgn y * of_int m * ulp)"

text \<open>\<open>x + y\<close> and \<open>x - y\<close> on numbers.\<close>

definition double_add :: "real \<Rightarrow> real \<Rightarrow> real" where
  "double_add x y = double_round (x + y)"

definition double_sub :: "real \<Rightarrow> real \<Rightarrow> real" where
  "double_sub x y = double_round (x - y)"

subsection \<open>Objects\<close>

text \<open>
  An object literal is an association list in insertion order. Assigning a property
  overwrites it in place when the key is there and appends it otherwise.
\<close>

type_synonym 'v obj = "(string \<times> 'v) list"

fun put :: "string \<Rightarrow> 'v \<Rightarrow> 'v obj \<Rightarrow> 'v obj" where
  "put k v [] = [(k, v)]"
| "put k v (p # ps) = (if fst p = k then (k, v) # ps else p # put k v ps)"

text \<open>\<open>Object.assign(target, src)\<close>: every own property of \<open>src\<close> is assigned to \<open>target\<close>.\<close>

fun Object_assign :: "'v obj \<Rightarrow> 'v obj \<Rightarrow> 'v obj" where
  "Object_assign target [] = target"
| "Object_assign target (p # ps) = Object_assign (put (fst p) (snd p) target) ps"

section \<open>The collaborators of a layer\<close>

text \<open>
  A renderer instance, as far as the layer looks at it: whether it is a
  \<open>CanvasRenderer\<close>, and which of the optional methods it declares.
\<close>

record renderer =
  r_class :: string
  r_isCanvas :: bool
  r_hasOnAdd :: bool
  r_hasSetToRedraw :: bool
  r_hasGetEvents :: bool

text \<open>A mask geometry: its type, what \<open>_isVectorMarker()\<close> answers, its symbol and owner.\<close>

record geometry =
  g_type :: string
  g_isVectorMarker :: bool
  g_symbol :: "jsval obj"
  g_bound :: bool

text \<open>The serialized form of a geometry.\<close>

record geometry_json =
  j_type :: string
  j_isVectorMarker :: bool
  j_symbol :: "jsval obj"

text \<open>A collision index is an object with an identity and contents.\<close>

record collision_index =
  ci_ref :: nat
  ci_boxes :: "nat list"

text \<open>
  The values of an event's payload: a value, a number that may be nil (\<open>None\<close> is the
  nil that was passed), this layer, a renderer.
\<close>

datatype pval = PVal jsval | PNum "real option" | PThis | PRenderer renderer

type_synonym payload = "pval obj"

text \<open>A callback registered with \<open>map.once\<close>: \<open>() => this.fire(type)\<close>.\<close>

datatype deferred = DeferredFire string

text \<open>
  An entry of the map's \<open>_layers\<close>: this layer, or another layer with its identity and
  its own \<open>_zIndex\<close>.
\<close>

datatype entry = Self | Sibling nat "real option"

datatype emitter = EmLayer | EmRenderer

text \<open>Calls into the collaborators, recorded in the order they happen.\<close>

datatype effect =
    MapOnLayerEvent payload
  | MapSortLayersByZIndex
  | MapOnce string deferred
  | MapSwitchEvents string emitter
  | MapAddLayer
  | MapRemoveLayer
  | LocalDispatch string "payload option"
  | RendererNew string
  | RendererSetZIndex "real option"
  | RendererRender
  | RendererShow
  | RendererHide
  | RendererOnAdd
  | RendererSetToRedraw
  | RendererRemove
  | MaskBindLayer
  | MaskUpdateSymbol "jsval obj"
  | MaskSetSymbol "jsval obj"
  | CollisionIndexClear nat
  | Hook string
  | ProxyOptions

record map_state =
  m_layers :: "entry list"
  m_minZoom :: real
  m_maxZoom :: real
  m_zoom :: real
  m_zooming :: bool
  m_projection :: string
  m_collisionIndex :: collision_index
  m_renderend :: "deferred list"

section \<open>The layer\<close>

text \<open>\<open>this.options\<close>. \<open>o_zIndex = None\<close> is the key being absent.\<close>

record layer_options =
  o_attribution :: jsval
  o_minZoom :: "real option"
  o_maxZoom :: "real option"
  o_visible :: jsval
  o_opacity :: jsval
  o_zIndex :: "real option"
  o_renderer :: string
  o_collisionScope :: string
  o_mask :: "geometry_json option"

text \<open>
  The layer object together with the one map of its world. \<open>l_map\<close> says whether
  \<open>this.map\<close> is set (to that map); the map itself outlives \<open>delete this.map\<close>.
  \<open>l_trace\<close> records the calls into the collaborators, \<open>l_fresh\<close> is the next unused
  object identity.
\<close>

record layer =
  l_id :: jsval
  l_zIndex :: "real option"
  l_canvas :: jsval
  l_options :: layer_options
  l_mask :: "geometry option"
  l_loaded :: bool
  l_collisionIndex :: "collision_index option"
  l_renderer :: "renderer option"
  l_silentConfig :: bool
  l_map :: bool
  the_map :: map_state
  l_trace :: "effect list"
  l_fresh :: nat

text \<open>
  What the class around the layer supplies: the overridable hooks, the static renderer
  registry (\<open>getRendererClass\<close>, which may be absent), whether the layer declares
  \<open>getEvents\<close> and \<open>_optionsHook\<close>, and the engine's conversion of a number to a string.
\<close>

record env =
  e_onLoad :: "layer \<Rightarrow> bool"
  e_getRendererClass :: "(string \<Rightarrow> renderer option) option"
  e_layerGetEvents :: bool
  e_optionsHook :: bool
  e_numberToString :: "real \<Rightarrow> string"

datatype error = Error string | TypeError

text \<open>
  A statement runs on the layer and either completes or throws; a throw keeps the state
  reached when it happened.
\<close>

datatype outcome = Ok layer | Throw error layer

type_synonym stmt = "layer \<Rightarrow> outcome"

fun block :: "stmt list \<Rightarrow> stmt" where
  "block [] w = Ok w"
| "block (s # ss) w = (case s w of Ok w' \<Rightarrow> block ss w' | Throw e w' \<Rightarrow> Throw e w')"

definition assign :: "(layer \<Rightarrow> layer) \<Rightarrow> stmt" where
  "assign f w = Ok (f w)"

definition guarded :: "(layer \<Rightarrow> bool) \<Rightarrow> stmt \<Rightarrow> stmt" where
  "guarded c s w = (if c w then s w else Ok w)"

definition log :: "effect \<Rightarrow> layer \<Rightarrow> layer" where
  "log e w = w\<lparr>l_trace := l_trace w @ [e]\<rparr>"

text \<open>
  A call of a method of \<open>this._renderer\<close>: a TypeError when there is no renderer, or when
  the renderer does not declare the optional method.
\<close>

fun renderer_declares :: "renderer \<Rightarrow> effect \<Rightarrow> bool" where
  "renderer_declares r RendererOnAdd = r_hasOnAdd r"
| "renderer_declares r RendererSetToRedraw = r_hasSetToRedraw r"
| "renderer_declares r _ = True"

definition renderer_call :: "effect \<Rightarrow> stmt" where
  "renderer_call c w =
     (case l_renderer w of
        None \<Rightarrow> Throw TypeError w
      | Some r \<Rightarrow> if renderer_declares r c then Ok (log c w) else Throw TypeError w)"

text \<open>A call of a method of \<open>this.map\<close>: a TypeError when the layer has no map.\<close>

definition map_call :: "(layer \<Rightarrow> layer) \<Rightarrow> stmt" where
  "map_call f w = (if l_map w then Ok (f w) else Throw TypeError w)"

definition getMap :: "layer \<Rightarrow> map_state option" where
  "getMap w = (if l_map w then Some (the_map w) else None)"

definition getId :: "layer \<Rightarrow> jsval" where
  "getId w = l_id w"

definition getZIndex :: "layer \<Rightarrow> real" where
  "getZIndex w = or_zero (l_zIndex w)"

definition getRenderer :: "layer \<Rightarrow> renderer option" where
  "getRenderer w = l_renderer w"

section \<open>Firing events\<close>

text \<open>
  \<open>Layer.prototype.fire\<close> (lines 639-665). The module is strict code, so \<open>arguments\<close>
  is not aliased to \<open>param\<close>: when \<open>param\<close> was falsy, the fresh \<open>{}\<close> is stamped and
  forwarded to the map while the inherited \<open>fire\<close> still receives the caller's argument;
  when \<open>param\<close> was an object, that object is stamped in place and both see it.
\<close>

definition stamp :: "string \<Rightarrow> payload \<Rightarrow> payload" where
  "stamp eventType param = put ''target'' PThis (put ''type'' (PVal (JStr eventType)) param)"

text \<open>The local variable \<open>param\<close> after the \<open>if (this.map)\<close> block.\<close>

definition fire_param :: "string \<Rightarrow> payload option \<Rightarrow> layer \<Rightarrow> payload option" where
  "fire_param eventType param w =
     (if l_map w
      then Some (stamp eventType (case param of None \<Rightarrow> [] | Some p \<Rightarrow> p))
      else param)"

text \<open>\<open>arguments[1]\<close> at \<open>fire.apply(this, arguments)\<close>.\<close>

definition fire_argument :: "string \<Rightarrow> payload option \<Rightarrow> layer \<Rightarrow> payload option" where
  "fire_argument eventType param w =
     (if l_map w then map_option (stamp eventType) param else param)"

text \<open>Lines 640-651: the loaded flag, the mirror to the map, the local dispatch.\<close>

definition fire_steps :: "string \<Rightarrow> payload option \<Rightarrow> stmt" where
  "fire_steps eventType param w =
     block [
       guarded (\<lambda>_. eventType = ''layerload'') (assign (\<lambda>w. w\<lparr>l_loaded := True\<rparr>)),
       guarded l_map
         (map_call (log (MapOnLayerEvent (stamp eventType (case param of None \<Rightarrow> [] | Some p \<Rightarrow> p))))),
       assign (log (LocalDispatch eventType (fire_argument eventType param w)))
     ] w"

text \<open>\<open>Object.assign({}, param, { visible: this.options.visible })\<close>.\<close>

definition visiblechange_param :: "payload option \<Rightarrow> layer \<Rightarrow> payload" where
  "visiblechange_param param w =
     Object_assign
       (Object_assign [] (case param of None \<Rightarrow> [] | Some p \<Rightarrow> p))
       [(''visible'', PVal (o_visible (l_options w)))]"

function fire :: "string \<Rightarrow> payload option \<Rightarrow> stmt" where
  "fire eventType param w =
     (case fire_steps eventType param w of
        Throw e w' \<Rightarrow> Throw e w'
      | Ok w' \<Rightarrow>
          if eventType = ''show'' \<or> eventType = ''hide''
          then fire ''visiblechange''
                 (Some (visiblechange_param (fire_param eventType param w) w')) w'
          else Ok w')"
  by pat_completeness auto
termination
  by (relation "measure (\<lambda>(t, p, w). if t = ''show'' \<or> t = ''hide'' then 1 else 0)") auto

declare fire.simps [simp del]

section \<open>Identity and z-order\<close>

text \<open>\<open>v + ''\<close>: the string form of a value.\<close>

fun ToString :: "env \<Rightarrow> jsval \<Rightarrow> string" where
  "ToString env JUndefined = ''undefined''"
| "ToString env JNull = ''null''"
| "ToString env (JBool b) = (if b then ''true'' else ''false'')"
| "ToString env (JNum r) = e_numberToString env r"
| "ToString env (JStr s) = s"

text \<open>\<open>setId\<close> (lines 120-141).\<close>

definition setId :: "env \<Rightarrow> jsval \<Rightarrow> stmt" where
  "setId env id0 w =
     (let old = l_id w;
          id1 = (if \<not> isNil id0 then JStr (ToString env id0 @ '''') else id0)
      in block [
           assign (\<lambda>w. w\<lparr>l_id := id1\<rparr>),
           fire ''idchange'' (Some [(''old'', PVal old), (''new'', PVal id1)])
         ] w)"

text \<open>\<open>getZIndex\<close> of an entry of the map's layer list.\<close>

fun entry_zIndex :: "layer \<Rightarrow> entry \<Rightarrow> real" where
  "entry_zIndex w Self = getZIndex w"
| "entry_zIndex w (Sibling n z) = or_zero z"

text \<open>
  Modelled from the spec: \<open>Map._sortLayersByZIndex\<close> is not under src/; the owning
  collection re-sorts by z-index, ties broken by the order the layers had before.
\<close>

definition map_sortLayersByZIndex :: "layer \<Rightarrow> layer" where
  "map_sortLayersByZIndex w =
     log MapSortLayersByZIndex
       (w\<lparr>the_map := (the_map w)\<lparr>m_layers := sort_key (entry_zIndex w) (m_layers (the_map w))\<rparr>\<rparr>)"

text \<open>\<open>setZIndex\<close> (lines 158-182).\<close>

definition setZIndex :: "real option \<Rightarrow> stmt" where
  "setZIndex zIndex =
     block [
       assign (\<lambda>w. w\<lparr>l_zIndex := zIndex\<rparr>),
       assign (\<lambda>w. if zIndex = None
                    then w\<lparr>l_options := (l_options w)\<lparr>o_zIndex := None\<rparr>\<rparr>
                    else w\<lparr>l_options := (l_options w)\<lparr>o_zIndex := zIndex\<rparr>\<rparr>),
       guarded l_map (map_call map_sortLayersByZIndex),
       guarded (\<lambda>w. l_renderer w \<noteq> None) (renderer_call (RendererSetZIndex zIndex)),
       fire ''setzindex'' (Some [(''zIndex'', PNum zIndex)])
     ]"

text \<open>\<open>addTo\<close> (lines 148-151); what the map does with the layer is the map's business.\<close>

definition addTo :: stmt where
  "addTo = assign (log MapAddLayer)"

text \<open>\<open>getMinZoom\<close> and \<open>getMaxZoom\<close> (lines 196-210).\<close>

definition getMinZoom :: "layer \<Rightarrow> real option" where
  "getMinZoom w =
     (let map = getMap w; minZoom = o_minZoom (l_options w)
      in case map of
           Some m \<Rightarrow> Some (Math_max (m_minZoom m) (or_zero minZoom))
         | None \<Rightarrow> minZoom)"

definition getMaxZoom :: "layer \<Rightarrow> number option" where
  "getMaxZoom w =
     (let map = getMap w; maxZoom = o_maxZoom (l_options w)
      in case map of
           Some m \<Rightarrow>
             Some (Math_min (Fin (m_maxZoom m))
                     (case maxZoom of None \<Rightarrow> Infinity | Some z \<Rightarrow> Fin z))
         | None \<Rightarrow> map_option Fin maxZoom)"

definition getOpacity :: "layer \<Rightarrow> jsval" where
  "getOpacity w = o_opacity (l_options w)"

text \<open>
  \<open>const renderer = this._getRenderer(); if (renderer && renderer.setToRedraw) ...\<close>, as
  \<open>setMask\<close>, \<open>removeMask\<close> and \<open>onConfig\<close> end.
\<close>

definition redraw_if_declared :: stmt where
  "redraw_if_declared =
     guarded (\<lambda>w. case getRenderer w of None \<Rightarrow> False | Some r \<Rightarrow> r_hasSetToRedraw r)
       (renderer_call RendererSetToRedraw)"

text \<open>\<open>onConfig\<close> (lines 519-534).\<close>

definition onConfig :: "env \<Rightarrow> jsval obj \<Rightarrow> stmt" where
  "onConfig env conf w =
     (let needUpdate = (conf \<noteq> [])
      in if needUpdate \<and> isNil (case map_of conf ''animation'' of None \<Rightarrow> JUndefined | Some v \<Rightarrow> v)
         then block [
                guarded (\<lambda>_. e_optionsHook env) (assign (log (Hook ''_optionsHook''))),
                (\<lambda>w. if l_silentConfig w then Ok w else redraw_if_declared w)
              ] w
         else Ok w)"

text \<open>
  Modelled from the spec: \<open>Class.config\<close> is not under src/; it stores the option and
  triggers the options-change hook \<open>onConfig\<close>.
\<close>

definition config_opacity :: "env \<Rightarrow> jsval \<Rightarrow> stmt" where
  "config_opacity env op =
     block [
       assign (\<lambda>w. w\<lparr>l_options := (l_options w)\<lparr>o_opacity := op\<rparr>\<rparr>),
       onConfig env [(''opacity'', op)]
     ]"

text \<open>\<open>setOpacity\<close> (lines 225-238).\<close>

definition setOpacity :: "env \<Rightarrow> jsval \<Rightarrow> stmt" where
  "setOpacity env op =
     block [config_opacity env op, fire ''setopacity'' (Some [(''opacity'', PVal op)])]"

definition isCanvasRender :: "layer \<Rightarrow> bool" where
  "isCanvasRender w = (case getRenderer w of None \<Rightarrow> False | Some r \<Rightarrow> r_isCanvas r)"

definition getProjection :: "layer \<Rightarrow> string option" where
  "getProjection w = (case getMap w of Some m \<Rightarrow> Some (m_projection m) | None \<Rightarrow> None)"

text \<open>\<open>_getLayerList\<close> (lines 616-621).\<close>

definition getLayerList :: "layer \<Rightarrow> entry list" where
  "getLayerList w = (if \<not> l_map w then [] else m_layers (the_map w))"

text \<open>\<open>bringToFront\<close> and \<open>bringToBack\<close> (lines 274-304).\<close>

definition bringToFront :: stmt where
  "bringToFront w =
     (let layers = getLayerList w
      in if length layers = 0 then Ok w
         else let topLayer = layers ! (length layers - 1)
              in if length layers = 1 \<or> topLayer = Self then Ok w
                 else let max = entry_zIndex w topLayer
                      in setZIndex (Some (double_add max 1)) w)"

definition bringToBack :: stmt where
  "bringToBack w =
     (let layers = getLayerList w
      in if length layers = 0 then Ok w
         else let bottomLayer = layers ! 0
              in if length layers = 1 \<or> bottomLayer = Self then Ok w
                 else let min = entry_zIndex w bottomLayer
                      in setZIndex (Some (double_sub min 1)) w)"

section \<open>Visibility\<close>

text \<open>
  Modelled from the spec: the map's \<open>once\<close> is not under src/; it registers a one-shot
  subscription on the named signal.
\<close>

definition map_once :: "deferred \<Rightarrow> layer \<Rightarrow> layer" where
  "map_once cb w =
     log (MapOnce ''renderend'' cb)
       (w\<lparr>the_map := (the_map w)\<lparr>m_renderend := m_renderend (the_map w) @ [cb]\<rparr>\<rparr>)"

text \<open>\<open>show\<close> and \<open>hide\<close> (lines 310-371).\<close>

definition show_layer :: stmt where
  "show_layer w =
     (if \<not> truthy (o_visible (l_options w))
      then block [
             assign (\<lambda>w. w\<lparr>l_options := (l_options w)\<lparr>o_visible := JBool True\<rparr>\<rparr>),
             (\<lambda>w. let renderer = getRenderer w
                  in block [
                       guarded (\<lambda>_. renderer \<noteq> None) (renderer_call RendererShow),
                       (\<lambda>w. let map = getMap w
                            in if renderer \<noteq> None \<and> map \<noteq> None
                               then map_call (map_once (DeferredFire ''show'')) w
                               else fire ''show'' None w)
                     ] w)
           ] w
      else Ok w)"

definition hide :: stmt where
  "hide w =
     (if truthy (o_visible (l_options w))
      then block [
             assign (\<lambda>w. w\<lparr>l_options := (l_options w)\<lparr>o_visible := JBool False\<rparr>\<rparr>),
             (\<lambda>w. let renderer = getRenderer w
                  in block [
                       guarded (\<lambda>_. renderer \<noteq> None) (renderer_call RendererHide),
                       (\<lambda>w. let map = getMap w
                            in if renderer \<noteq> None \<and> map \<noteq> None
                               then map_call (map_once (DeferredFire ''hide'')) w
                               else fire ''hide'' None w)
                     ] w)
           ] w
      else Ok w)"



text \<open>\<open>isVisible\<close> (lines 377-394): the answer and the layer after the call.\<close>

definition isVisible :: "layer \<Rightarrow> jsval \<times> layer" where
  "isVisible w =
     (if isNumber (o_opacity (l_options w)) \<and>
         (case o_opacity (l_options w) of JNum r \<Rightarrow> r \<le> 0 | _ \<Rightarrow> False)
      then (JBool False, w)
      else if (case getMap w of
                 None \<Rightarrow> False
               | Some m \<Rightarrow>
                   (let zoom = m_zoom m
                    in (case o_maxZoom (l_options w) of None \<Rightarrow> False | Some mx \<Rightarrow> mx < zoom) \<or>
                       (case o_minZoom (l_options w) of None \<Rightarrow> False | Some mn \<Rightarrow> mn > zoom)))
      then (JBool False, w)
      else let w' = (if isNil (o_visible (l_options w))
                     then w\<lparr>l_options := (l_options w)\<lparr>o_visible := JBool True\<rparr>\<rparr>
                     else w)
           in (o_visible (l_options w'), w'))"

text \<open>\<open>remove\<close> (lines 400-405); the map answers by calling \<open>_doRemove\<close>.\<close>

definition remove :: stmt where
  "remove = guarded l_map (map_call (log MapRemoveLayer))"

section \<open>The mask\<close>

text \<open>
  Modelled from the spec: the geometry's \<open>_bindLayer\<close>, \<open>updateSymbol\<close>, \<open>setSymbol\<close>,
  \<open>toJSON\<close> and \<open>Geometry.fromJSON\<close> are not under src/. Binding tells the mask which
  layer owns it; \<open>updateSymbol\<close> merges the given properties into the symbol and
  \<open>setSymbol\<close> replaces it; the serialized form holds the type and the symbol.
\<close>

definition bindLayer :: "geometry \<Rightarrow> geometry" where
  "bindLayer g = g\<lparr>g_bound := True\<rparr>"

definition updateSymbol :: "jsval obj \<Rightarrow> geometry \<Rightarrow> geometry" where
  "updateSymbol props g = g\<lparr>g_symbol := Object_assign (g_symbol g) props\<rparr>"

definition setSymbol :: "jsval obj \<Rightarrow> geometry \<Rightarrow> geometry" where
  "setSymbol props g = g\<lparr>g_symbol := props\<rparr>"

definition toJSON :: "geometry \<Rightarrow> geometry_json" where
  "toJSON g = \<lparr>j_type = g_type g, j_isVectorMarker = g_isVectorMarker g, j_symbol = g_symbol g\<rparr>"

definition fromJSON :: "geometry_json \<Rightarrow> geometry" where
  "fromJSON j =
     \<lparr>g_type = j_type j, g_isVectorMarker = j_isVectorMarker j, g_symbol = j_symbol j,
      g_bound = False\<rparr>"

definition getMask :: "layer \<Rightarrow> geometry option" where
  "getMask w = l_mask w"

definition point_restyle :: "jsval obj" where
  "point_restyle = [(''markerLineColor'', JStr ''rgba(0, 0, 0, 0)''), (''markerFillOpacity'', JNum 0)]"

definition polygon_restyle :: "jsval obj" where
  "polygon_restyle = [(''lineColor'', JStr ''rgba(0, 0, 0, 0)''), (''polygonOpacity'', JNum 0)]"

definition mask_error :: error where
  "mask_error =
     Error ''Mask for a layer must be a marker with vector marker symbol or a Polygon(MultiPolygon).''"

text \<open>The mask after lines 424-435: bound and restyled.\<close>

definition restyled :: "geometry \<Rightarrow> geometry" where
  "restyled a_mask =
     (if g_type a_mask = ''Point''
      then updateSymbol point_restyle (bindLayer a_mask)
      else setSymbol polygon_restyle (bindLayer a_mask))"

text \<open>\<open>setMask\<close> (lines 420-446).\<close>

definition setMask :: "geometry \<Rightarrow> stmt" where
  "setMask a_mask w =
     (if \<not> ((g_type a_mask = ''Point'' \<and> g_isVectorMarker a_mask) \<or> g_type a_mask = ''Polygon'' \<or>
             g_type a_mask = ''MultiPolygon'')
      then Throw mask_error w
      else block [
             assign (log MaskBindLayer),
             assign (\<lambda>w. if g_type a_mask = ''Point''
                          then log (MaskUpdateSymbol point_restyle) w
                          else log (MaskSetSymbol polygon_restyle) w),
             assign (\<lambda>w. w\<lparr>l_mask := Some (restyled a_mask)\<rparr>),
             assign (\<lambda>w. w\<lparr>l_options := (l_options w)\<lparr>o_mask := Some (toJSON (restyled a_mask))\<rparr>\<rparr>),
             (\<lambda>w. if getMap w = None \<or> m_zooming (the_map w) then Ok w
                  else redraw_if_declared w)
           ] w)"

text \<open>\<open>removeMask\<close> (lines 452-463).\<close>

definition removeMask :: stmt where
  "removeMask =
     block [
       assign (\<lambda>w. w\<lparr>l_mask := None\<rparr>),
       assign (\<lambda>w. w\<lparr>l_options := (l_options w)\<lparr>o_mask := None\<rparr>\<rparr>),
       (\<lambda>w. if getMap w = None \<or> m_zooming (the_map w) then Ok w
            else redraw_if_declared w)
     ]"

definition isLoaded :: "layer \<Rightarrow> bool" where
  "isLoaded w = l_loaded w"

section \<open>The collision index\<close>

text \<open>\<open>new CollisionIndex()\<close>: a fresh, empty index.\<close>

definition new_CollisionIndex :: "layer \<Rightarrow> layer" where
  "new_CollisionIndex w =
     w\<lparr>l_collisionIndex := Some \<lparr>ci_ref = l_fresh w, ci_boxes = []\<rparr>, l_fresh := Suc (l_fresh w)\<rparr>"

text \<open>\<open>getCollisionIndex\<close> (lines 489-501): the answer and the layer after the call.\<close>

definition getCollisionIndex :: "layer \<Rightarrow> collision_index option \<times> layer" where
  "getCollisionIndex w =
     (if o_collisionScope (l_options w) = ''layer''
      then let w' = (if l_collisionIndex w = None then new_CollisionIndex w else w)
           in (l_collisionIndex w', w')
      else case getMap w of
             None \<Rightarrow> (None, w)
           | Some m \<Rightarrow> (Some (m_collisionIndex m), w))"

text \<open>
  Modelled from the spec: \<open>CollisionIndex.clear\<close> is not under src/; it empties the index
  and keeps the instance. As a call on \<open>this._collisionIndex\<close> it is a TypeError when
  there is none.
\<close>

definition collisionIndex_clear :: stmt where
  "collisionIndex_clear w =
     (case l_collisionIndex w of
        None \<Rightarrow> Throw TypeError w
      | Some ci \<Rightarrow>
          Ok (log (CollisionIndexClear (ci_ref ci))
                (w\<lparr>l_collisionIndex := Some (ci\<lparr>ci_boxes := []\<rparr>)\<rparr>)))"

text \<open>\<open>clearCollisionIndex\<close> (lines 507-513).\<close>

definition clearCollisionIndex :: stmt where
  "clearCollisionIndex =
     guarded (\<lambda>w. o_collisionScope (l_options w) = ''layer'' \<and> l_collisionIndex w \<noteq> None)
       collisionIndex_clear"

section \<open>The renderer's life cycle\<close>

text \<open>\<open>_switchEvents\<close> (lines 606-610).\<close>

definition switchEvents :: "env \<Rightarrow> string \<Rightarrow> emitter \<Rightarrow> stmt" where
  "switchEvents env to emitter =
     guarded
       (\<lambda>w. (case emitter of
                EmLayer \<Rightarrow> e_layerGetEvents env
              | EmRenderer \<Rightarrow> (case l_renderer w of None \<Rightarrow> False | Some r \<Rightarrow> r_hasGetEvents r)) \<and>
             getMap w \<noteq> None)
       (map_call (log (MapSwitchEvents to emitter)))"

text \<open>\<open>_bindMap\<close> (lines 544-557).\<close>

definition bindMap :: "env \<Rightarrow> map_state option \<Rightarrow> real option \<Rightarrow> stmt" where
  "bindMap env a_map zIndex w =
     (case a_map of
        None \<Rightarrow> Ok w
      | Some m \<Rightarrow>
          block [
            assign (\<lambda>w. w\<lparr>l_map := True, the_map := m\<rparr>),
            guarded (\<lambda>_. zIndex \<noteq> None) (setZIndex zIndex),
            switchEvents env ''on'' EmLayer,
            assign (log (Hook ''onAdd'')),
            fire ''add'' None
          ] w)"

definition renderer_error :: "env \<Rightarrow> layer \<Rightarrow> error" where
  "renderer_error env w =
     Error (''Invalid renderer for Layer('' @ ToString env (getId w) @ ''):'' @
            o_renderer (l_options w))"

text \<open>\<open>_initRenderer\<close> (lines 559-590).\<close>

definition initRenderer :: "env \<Rightarrow> stmt" where
  "initRenderer env w =
     (let renderer = o_renderer (l_options w)
      in case e_getRendererClass env of
           None \<Rightarrow> Ok w
         | Some getRendererClass \<Rightarrow>
             (case getRendererClass renderer of
                None \<Rightarrow> Throw (renderer_error env w) w
              | Some clazz \<Rightarrow>
                  block [
                    assign (\<lambda>w. log (RendererNew (r_class clazz)) (w\<lparr>l_renderer := Some clazz\<rparr>)),
                    (\<lambda>w. renderer_call (RendererSetZIndex (Some (getZIndex w))) w),
                    switchEvents env ''on'' EmRenderer,
                    guarded (\<lambda>w. case l_renderer w of None \<Rightarrow> False | Some r \<Rightarrow> r_hasOnAdd r)
                      (renderer_call RendererOnAdd),
                    assign (log (Hook ''onRendererCreate'')),
                    (\<lambda>w. case l_renderer w of
                           None \<Rightarrow> fire ''renderercreate'' (Some [(''renderer'', PVal JUndefined)]) w
                         | Some r \<Rightarrow> fire ''renderercreate'' (Some [(''renderer'', PRenderer r)]) w)
                  ] w))"

text \<open>\<open>load\<close> (lines 88-104). \<open>getZIndex()\<close> answers a number, which is never nil.\<close>

definition load :: "env \<Rightarrow> stmt" where
  "load env w =
     (if getMap w = None then Ok w
      else block [
             assign (log (Hook ''onLoad'')),
             guarded (e_onLoad env)
               (block [
                  initRenderer env,
                  (\<lambda>w. let zIndex = getZIndex w
                       in guarded (\<lambda>_. \<not> isNil (JNum zIndex))
                            (block [
                               renderer_call (RendererSetZIndex (Some zIndex)),
                               guarded (\<lambda>w. \<not> isCanvasRender w) (renderer_call RendererRender)
                             ]) w),
                  assign (log (Hook ''onLoadEnd''))
                ])
           ] w)"

text \<open>\<open>_doRemove\<close> (lines 592-604).\<close>

definition doRemove :: "env \<Rightarrow> stmt" where
  "doRemove env =
     block [
       assign (\<lambda>w. w\<lparr>l_loaded := False\<rparr>),
       switchEvents env ''off'' EmLayer,
       assign (log (Hook ''onRemove'')),
       guarded (\<lambda>w. l_renderer w \<noteq> None)
         (block [
            switchEvents env ''off'' EmRenderer,
            renderer_call RendererRemove,
            assign (\<lambda>w. w\<lparr>l_renderer := None\<rparr>)
          ]),
       assign (\<lambda>w. w\<lparr>l_map := False\<rparr>),
       assign (\<lambda>w. w\<lparr>l_collisionIndex := None\<rparr>)
     ]"

section \<open>Construction\<close>

text \<open>The class defaults (lines 32-51).\<close>

definition default_options :: layer_options where
  "default_options =
     \<lparr>o_attribution = JNull, o_minZoom = None, o_maxZoom = None, o_visible = JBool True,
      o_opacity = JNum 1, o_zIndex = None, o_renderer = ''canvas'',
      o_collisionScope = ''layer'', o_mask = None\<rparr>"

text \<open>
  The options object handed to the constructor: its \<open>canvas\<close>, and its other keys.
  Modelled from the spec: the \<open>Class\<close> constructor is not under src/; it stores the given
  options over the class defaults, and \<open>c_options\<close> is that result (so \<open>o_zIndex\<close> and
  \<open>o_mask\<close> of it are the caller's \<open>zIndex\<close> and \<open>mask\<close>).
\<close>

record ctor_options =
  c_canvas :: jsval
  c_options :: layer_options

text \<open>The object before the constructor's body runs, in a world with map \<open>m\<close>.\<close>

definition blank :: "map_state \<Rightarrow> nat \<Rightarrow> layer" where
  "blank m n =
     \<lparr>l_id = JUndefined, l_zIndex = None, l_canvas = JUndefined, l_options = default_options,
      l_mask = None, l_loaded = False, l_collisionIndex = None, l_renderer = None,
      l_silentConfig = False, l_map = False, the_map = m, l_trace = [], l_fresh = n\<rparr>"

text \<open>The constructor (lines 67-83).\<close>

definition constructor :: "env \<Rightarrow> map_state \<Rightarrow> nat \<Rightarrow> jsval \<Rightarrow> ctor_options option \<Rightarrow> outcome" where
  "constructor env m n id0 options =
     (let canvas = (case options of None \<Rightarrow> JUndefined | Some opts \<Rightarrow> c_canvas opts)
      in block [
           assign (\<lambda>w. case options of None \<Rightarrow> w | Some opts \<Rightarrow> w\<lparr>l_options := c_options opts\<rparr>),
           assign (\<lambda>w. w\<lparr>l_canvas := canvas\<rparr>),
           setId env id0,
           (\<lambda>w. case options of
                  None \<Rightarrow> Ok w
                | Some opts \<Rightarrow>
                    block [
                      setZIndex (o_zIndex (c_options opts)),
                      (\<lambda>w. case o_mask (c_options opts) of
                             None \<Rightarrow> Ok w
                           | Some j \<Rightarrow> setMask (fromJSON j) w)
                    ] w),
           assign (log ProxyOptions)
         ] (blank m n))"

section \<open>Operations as data\<close>

text \<open>
  The operations of a layer, and running one. A getter leaves the layer as it is;
  \<open>isVisible\<close> and \<open>getCollisionIndex\<close> may change it.
\<close>

datatype operation =
    OpGetId | OpSetId jsval | OpAddTo | OpSetZIndex "real option" | OpGetZIndex
  | OpGetMinZoom | OpGetMaxZoom | OpGetOpacity | OpSetOpacity jsval | OpIsCanvasRender
  | OpGetMap | OpGetProjection | OpBringToFront | OpBringToBack | OpShow | OpHide
  | OpIsVisible | OpRemove | OpGetMask | OpSetMask geometry | OpRemoveMask | OpIsLoaded
  | OpGetCollisionIndex | OpClearCollisionIndex | OpGetRenderer | OpOnConfig "jsval obj"
  | OpBindMap "map_state option" "real option" | OpDoRemove
  | OpFire string "payload option" | OpLoad

fun exec :: "env \<Rightarrow> operation \<Rightarrow> stmt" where
  "exec env OpGetId w = Ok w"
| "exec env (OpSetId v) w = setId env v w"
| "exec env OpAddTo w = addTo w"
| "exec env (OpSetZIndex z) w = setZIndex z w"
| "exec env OpGetZIndex w = Ok w"
| "exec env OpGetMinZoom w = Ok w"
| "exec env OpGetMaxZoom w = Ok w"
| "exec env OpGetOpacity w = Ok w"
| "exec env (OpSetOpacity v) w = setOpacity env v w"
| "exec env OpIsCanvasRender w = Ok w"
| "exec env OpGetMap w = Ok w"
| "exec env OpGetProjection w = Ok w"
| "exec env OpBringToFront w = bringToFront w"
| "exec env OpBringToBack w = bringToBack w"
| "exec env OpShow w = show_layer w"
| "exec env OpHide w = hide w"
| "exec env OpIsVisible w = Ok (snd (isVisible w))"
| "exec env OpRemove w = remove w"
| "exec env OpGetMask w = Ok w"
| "exec env (OpSetMask g) w = setMask g w"
| "exec env OpRemoveMask w = removeMask w"
| "exec env OpIsLoaded w = Ok w"
| "exec env OpGetCollisionIndex w = Ok (snd (getCollisionIndex w))"
| "exec env OpClearCollisionIndex w = clearCollisionIndex w"
| "exec env OpGetRenderer w = Ok w"
| "exec env (OpOnConfig conf) w = onConfig env conf w"
| "exec env (OpBindMap m z) w = bindMap env m z w"
| "exec env OpDoRemove w = doRemove env w"
| "exec env (OpFire t p) w = fire t p w"
| "exec env OpLoad w = load env w"

fun is_setMask :: "operation \<Rightarrow> bool" where
  "is_setMask (OpSetMask g) = True"
| "is_setMask _ = False"

text \<open>The layer an outcome leaves behind, and whether the statement completed.\<close>

fun state_of :: "outcome \<Rightarrow> layer" where
  "state_of (Ok w) = w"
| "state_of (Throw e w) = w"

fun completes :: "outcome \<Rightarrow> bool" where
  "completes (Ok w) = True"
| "completes (Throw e w) = False"

section \<open>Example worlds\<close>

definition canvas_renderer :: renderer where
  "canvas_renderer =
     \<lparr>r_class = ''CanvasRenderer'', r_isCanvas = True, r_hasOnAdd = True,
      r_hasSetToRedraw = True, r_hasGetEvents = True\<rparr>"

definition dom_renderer :: renderer where
  "dom_renderer =
     \<lparr>r_class = ''DomRenderer'', r_isCanvas = False, r_hasOnAdd = False,
      r_hasSetToRedraw = False, r_hasGetEvents = False\<rparr>"

definition example_env :: env where
  "example_env =
     \<lparr>e_onLoad = (\<lambda>w. True),
      e_getRendererClass =
        Some (\<lambda>kind. if kind = ''canvas'' then Some canvas_renderer
                      else if kind = ''dom'' then Some dom_renderer else None),
      e_layerGetEvents = False, e_optionsHook = False,
      e_numberToString = (\<lambda>r. ''1'')\<rparr>"

definition example_map :: map_state where
  "example_map =
     \<lparr>m_layers = [Self, Sibling 1 None, Sibling 2 (Some 3)], m_minZoom = 2, m_maxZoom = 18,
      m_zoom = 10, m_zooming = False, m_projection = ''EPSG:3857'',
      m_collisionIndex = \<lparr>ci_ref = 0, ci_boxes = [7]\<rparr>, m_renderend = []\<rparr>"

definition detached_layer :: layer where
  "detached_layer = blank example_map 1"

definition attached_layer :: layer where
  "attached_layer = (blank example_map 1)\<lparr>l_map := True\<rparr>"

definition rendered_layer :: layer where
  "rendered_layer = (blank example_map 1)\<lparr>l_map := True, l_renderer := Some canvas_renderer\<rparr>"

definition below_zero_map_layer :: layer where
  "below_zero_map_layer = attached_layer\<lparr>the_map := example_map\<lparr>m_minZoom := - 1\<rparr>\<rparr>"

definition line_geometry :: geometry where
  "line_geometry =
     \<lparr>g_type = ''LineString'', g_isVectorMarker = False,
      g_symbol = [(''lineColor'', JStr ''#f00'')], g_bound = False\<rparr>"

definition polygon_geometry :: geometry where
  "polygon_geometry =
     \<lparr>g_type = ''Polygon'', g_isVectorMarker = False,
      g_symbol = [(''polygonFill'', JStr ''#00f'')], g_bound = False\<rparr>"

definition marker_geometry :: geometry where
  "marker_geometry =
     \<lparr>g_type = ''Point'', g_isVectorMarker = True,
      g_symbol = [(''markerType'', JStr ''ellipse''), (''markerFillOpacity'', JNum 1)],
      g_bound = False\<rparr>"

text \<open>
  Running a sequence of operations, each on the layer the one before left behind (also
  when it threw). \<open>addTo\<close> and \<open>remove\<close> only ask the map; what the map then calls on
  the layer (\<open>_bindMap\<close>, \<open>load\<close>, \<open>_doRemove\<close>) is an operation of its own in the
  sequence.
\<close>

definition run :: "env \<Rightarrow> operation list \<Rightarrow> layer \<Rightarrow> layer" where
  "run env ops w = fold (\<lambda>op w. state_of (exec env op w)) ops w"

text \<open>The operations after the last \<open>_doRemove\<close> (latest first).\<close>

definition since_removal :: "operation list \<Rightarrow> operation list" where
  "since_removal ops = takeWhile (\<lambda>op. op \<noteq> OpDoRemove) (rev ops)"

text \<open>Two layers with the same dedicated collision index and the same scope option.\<close>

definition same_index :: "layer \<Rightarrow> layer \<Rightarrow> bool" where
  "same_index w w' \<longleftrightarrow>
     l_collisionIndex w' = l_collisionIndex w \<and>
     o_collisionScope (l_options w') = o_collisionScope (l_options w)"

definition layer_scoped :: layer where
  "layer_scoped =
     detached_layer\<lparr>l_collisionIndex := Some \<lparr>ci_ref = 4, ci_boxes = [1, 2]\<rparr>, l_fresh := 5\<rparr>"

definition map_scoped :: layer where
  "map_scoped = attached_layer\<lparr>l_options := default_options\<lparr>o_collisionScope := ''map''\<rparr>\<rparr>"

definition no_registry_env :: env where
  "no_registry_env = example_env\<lparr>e_getRendererClass := None\<rparr>"

definition raised_dom_layer :: layer where
  "raised_dom_layer =
     attached_layer\<lparr>l_zIndex := Some 7, l_options := default_options\<lparr>o_zIndex := Some 7, o_renderer := ''dom''\<rparr>\<rparr>"


section \<open>Firing events: the steps and their order\<close>

lemma fire_steps_eq:
  "fire_steps eventType param w =
     Ok (w\<lparr>l_loaded := (eventType = ''layerload'' \<or> l_loaded w),
           l_trace := l_trace w
             @ (if l_map w
                then [MapOnLayerEvent (stamp eventType (case param of None \<Rightarrow> [] | Some p \<Rightarrow> p))]
                else [])
             @ [LocalDispatch eventType (fire_argument eventType param w)]\<rparr>)"
  by (simp add: fire_steps_def guarded_def assign_def map_call_def log_def)

lemma fire_closed_form:
  "fire eventType param w =
     Ok (w\<lparr>l_loaded := (eventType = ''layerload'' \<or> l_loaded w),
           l_trace := l_trace w
             @ (if l_map w
                then [MapOnLayerEvent (stamp eventType (case param of None \<Rightarrow> [] | Some p \<Rightarrow> p))]
                else [])
             @ [LocalDispatch eventType (fire_argument eventType param w)]
             @ (if eventType = ''show'' \<or> eventType = ''hide''
                then (if l_map w
                      then [MapOnLayerEvent
                              (stamp ''visiblechange''
                                 (visiblechange_param (fire_param eventType param w) w))]
                      else [])
                  @ [LocalDispatch ''visiblechange''
                       (Some (if l_map w
                              then stamp ''visiblechange''
                                     (visiblechange_param (fire_param eventType param w) w)
                              else visiblechange_param (fire_param eventType param w) w))]
                else [])\<rparr>)"
proof (cases "eventType = ''show'' \<or> eventType = ''hide''")
  case False
  then show ?thesis
    by (subst fire.simps) (simp add: fire_steps_eq)
next
  case True
  then have inner: "''visiblechange'' \<noteq> eventType"
    by auto
  from True show ?thesis
    apply (subst fire.simps)
    apply (simp only: fire_steps_eq outcome.case if_True)
    apply (subst fire.simps)
    apply (simp add: fire_steps_eq visiblechange_param_def fire_argument_def)
    done
qed

lemma fire_completes: "completes (fire eventType param w)"
  by (simp add: fire_closed_form)

lemma map_of_put: "map_of (put k v ps) k' = (if k' = k then Some v else map_of ps k')"
  by (induction ps) auto

lemma put_fresh: "k \<notin> fst ` set ps \<Longrightarrow> put k v ps = ps @ [(k, v)]"
  by (induction ps) auto

lemma Object_assign_distinct:
  "distinct (map fst (t @ s)) \<Longrightarrow> Object_assign t s = t @ s"
proof (induction s arbitrary: t)
  case Nil
  then show ?case by simp
next
  case (Cons p ps)
  from Cons.prems have fresh: "fst p \<notin> fst ` set t"
    by auto
  from Cons.prems have "distinct (map fst ((t @ [p]) @ ps))"
    by simp
  then have "Object_assign (t @ [p]) ps = (t @ [p]) @ ps"
    by (rule Cons.IH)
  with fresh show ?case
    by (simp add: put_fresh)
qed

text \<open>
  The merged payload of the derived event: the properties of the (stamped) payload, with
  \<open>visible\<close> set to the option's value.
\<close>

lemma visiblechange_param_lookup:
  "distinct (map fst p) \<Longrightarrow>
   map_of (visiblechange_param (Some p) w) k =
     (if k = ''visible'' then Some (PVal (o_visible (l_options w))) else map_of p k)"
  using Object_assign_distinct [of "[]" p]
  by (simp add: visiblechange_param_def map_of_put)



section \<open>Showing and hiding\<close>

lemma outcome_case_eta [simp]:
  "(case m of Ok x \<Rightarrow> Ok x | Throw e x \<Rightarrow> Throw e x) = m"
  by (cases m) auto

lemma block_single [simp]: "block [s] w = s w"
  by (cases "s w") auto

lemma block_cons2 [simp]:
  "block (s # s' # ss) w =
     (case s w of Ok w' \<Rightarrow> block (s' # ss) w' | Throw e w' \<Rightarrow> Throw e w')"
  by simp

declare block.simps(2) [simp del]




lemma show_visible: "truthy (o_visible (l_options w)) \<Longrightarrow> show_layer w = Ok w"
  by (simp add: show_layer_def)

lemma hide_hidden: "\<not> truthy (o_visible (l_options w)) \<Longrightarrow> hide w = Ok w"
  by (simp add: hide_def)

lemma show_sync:
  assumes "\<not> truthy (o_visible (l_options w))" and "l_renderer w = None \<or> \<not> l_map w"
  shows "show_layer w =
     fire ''show'' None
       (w\<lparr>l_options := (l_options w)\<lparr>o_visible := JBool True\<rparr>,
          l_trace := l_trace w @ (if l_renderer w \<noteq> None then [RendererShow] else [])\<rparr>)"
  using assms
  by (cases "l_renderer w")
    (auto simp add: show_layer_def assign_def guarded_def renderer_call_def getRenderer_def
      getMap_def log_def Let_def)

lemma hide_sync:
  assumes "truthy (o_visible (l_options w))" and "l_renderer w = None \<or> \<not> l_map w"
  shows "hide w =
     fire ''hide'' None
       (w\<lparr>l_options := (l_options w)\<lparr>o_visible := JBool False\<rparr>,
          l_trace := l_trace w @ (if l_renderer w \<noteq> None then [RendererHide] else [])\<rparr>)"
  using assms
  by (cases "l_renderer w")
    (auto simp add: hide_def assign_def guarded_def renderer_call_def getRenderer_def
      getMap_def log_def Let_def)

lemma show_deferred:
  assumes "\<not> truthy (o_visible (l_options w))" and "l_renderer w \<noteq> None" and "l_map w"
  shows "show_layer w =
     Ok (w\<lparr>l_options := (l_options w)\<lparr>o_visible := JBool True\<rparr>,
           the_map := (the_map w)\<lparr>m_renderend := m_renderend (the_map w) @ [DeferredFire ''show'']\<rparr>,
           l_trace := l_trace w @ [RendererShow, MapOnce ''renderend'' (DeferredFire ''show'')]\<rparr>)"
  using assms
  by (cases "l_renderer w")
    (auto simp add: show_layer_def assign_def guarded_def renderer_call_def getRenderer_def
      getMap_def log_def Let_def map_call_def map_once_def)

lemma hide_deferred:
  assumes "truthy (o_visible (l_options w))" and "l_renderer w \<noteq> None" and "l_map w"
  shows "hide w =
     Ok (w\<lparr>l_options := (l_options w)\<lparr>o_visible := JBool False\<rparr>,
           the_map := (the_map w)\<lparr>m_renderend := m_renderend (the_map w) @ [DeferredFire ''hide'']\<rparr>,
           l_trace := l_trace w @ [RendererHide, MapOnce ''renderend'' (DeferredFire ''hide'')]\<rparr>)"
  using assms
  by (cases "l_renderer w")
    (auto simp add: hide_def assign_def guarded_def renderer_call_def getRenderer_def
      getMap_def log_def Let_def map_call_def map_once_def)




section \<open>Effective visibility\<close>

lemma isVisible_transparent:
  assumes "o_opacity (l_options w) = JNum r" and "r \<le> 0"
  shows "isVisible w = (JBool False, w)"
  using assms by (simp add: isVisible_def)

lemma isVisible_out_of_zoom:
  assumes "\<not> (\<exists>r. o_opacity (l_options w) = JNum r \<and> r \<le> 0)" and "l_map w"
    and "(\<exists>mx. o_maxZoom (l_options w) = Some mx \<and> mx < m_zoom (the_map w)) \<or>
         (\<exists>mn. o_minZoom (l_options w) = Some mn \<and> m_zoom (the_map w) < mn)"
  shows "isVisible w = (JBool False, w)"
  using assms
  by (cases "o_opacity (l_options w)") (auto simp add: isVisible_def getMap_def Let_def)

lemma isVisible_flag:
  assumes "\<not> (\<exists>r. o_opacity (l_options w) = JNum r \<and> r \<le> 0)"
    and "l_map w \<longrightarrow>
           (\<forall>mx. o_maxZoom (l_options w) = Some mx \<longrightarrow> m_zoom (the_map w) \<le> mx) \<and>
           (\<forall>mn. o_minZoom (l_options w) = Some mn \<longrightarrow> mn \<le> m_zoom (the_map w))"
  shows "isVisible w =
     (if isNil (o_visible (l_options w))
      then (JBool True, w\<lparr>l_options := (l_options w)\<lparr>o_visible := JBool True\<rparr>\<rparr>)
      else (o_visible (l_options w), w))"
proof -
  from assms(1) have opaque:
    "\<not> (isNumber (o_opacity (l_options w)) \<and>
        (case o_opacity (l_options w) of JNum r \<Rightarrow> r \<le> 0 | _ \<Rightarrow> False))"
    by (cases "o_opacity (l_options w)") auto
  from assms(2) have inside:
    "\<not> (case getMap w of
          None \<Rightarrow> False
        | Some m \<Rightarrow>
            (let zoom = m_zoom m
             in (case o_maxZoom (l_options w) of None \<Rightarrow> False | Some mx \<Rightarrow> mx < zoom) \<or>
                (case o_minZoom (l_options w) of None \<Rightarrow> False | Some mn \<Rightarrow> mn > zoom)))"
    by (auto simp add: getMap_def Let_def split: option.splits)
  show ?thesis
    unfolding isVisible_def
    apply (simp only: opaque inside if_False)
    apply (simp add: Let_def)
    done
qed

text \<open>
  C3. \<open>isVisible()\<close> answers false whenever the opacity is a number at most 0, whatever the
  zoom and the flag; otherwise, with a map, it answers false when the map's zoom is above
  a non-nil \<open>maxZoom\<close> or below a non-nil \<open>minZoom\<close>; otherwise it answers the stored
  \<open>visible\<close> option, which it first sets to true when it was nil. The first two answers
  leave the layer unchanged.
\<close>

theorem isVisible_opacity_zoom_flag:
  "(\<forall>r. o_opacity (l_options w) = JNum r \<and> r \<le> 0 \<longrightarrow> isVisible w = (JBool False, w)) \<and>
   (\<not> (\<exists>r. o_opacity (l_options w) = JNum r \<and> r \<le> 0) \<and> l_map w \<and>
    ((\<exists>mx. o_maxZoom (l_options w) = Some mx \<and> mx < m_zoom (the_map w)) \<or>
     (\<exists>mn. o_minZoom (l_options w) = Some mn \<and> m_zoom (the_map w) < mn)) \<longrightarrow>
      isVisible w = (JBool False, w)) \<and>
   (\<not> (\<exists>r. o_opacity (l_options w) = JNum r \<and> r \<le> 0) \<and>
    (l_map w \<longrightarrow>
       (\<forall>mx. o_maxZoom (l_options w) = Some mx \<longrightarrow> m_zoom (the_map w) \<le> mx) \<and>
       (\<forall>mn. o_minZoom (l_options w) = Some mn \<longrightarrow> mn \<le> m_zoom (the_map w))) \<longrightarrow>
      isVisible w =
        (if isNil (o_visible (l_options w))
         then (JBool True, w\<lparr>l_options := (l_options w)\<lparr>o_visible := JBool True\<rparr>\<rparr>)
         else (o_visible (l_options w), w)))"
  using isVisible_transparent [of w] isVisible_out_of_zoom [of w] isVisible_flag [of w]
  by blast

theorem isVisible_opacity_zoom_flag_witness:
  "fst (isVisible (attached_layer\<lparr>l_options := default_options\<lparr>o_opacity := JNum 0\<rparr>\<rparr>)) = JBool False \<and>
   fst (isVisible (attached_layer\<lparr>l_options := default_options\<lparr>o_maxZoom := Some 5\<rparr>\<rparr>)) = JBool False \<and>
   isVisible (detached_layer\<lparr>l_options := default_options\<lparr>o_maxZoom := Some 5, o_visible := JNull\<rparr>\<rparr>) =
     (JBool True, detached_layer\<lparr>l_options := default_options\<lparr>o_maxZoom := Some 5, o_visible := JBool True\<rparr>\<rparr>)"
proof -
  have "isVisible (attached_layer\<lparr>l_options := default_options\<lparr>o_opacity := JNum 0\<rparr>\<rparr>) =
      (JBool False, attached_layer\<lparr>l_options := default_options\<lparr>o_opacity := JNum 0\<rparr>\<rparr>)"
    using isVisible_opacity_zoom_flag
      [of "attached_layer\<lparr>l_options := default_options\<lparr>o_opacity := JNum 0\<rparr>\<rparr>"]
    by simp
  moreover
  have "isVisible (attached_layer\<lparr>l_options := default_options\<lparr>o_maxZoom := Some 5\<rparr>\<rparr>) =
      (JBool False, attached_layer\<lparr>l_options := default_options\<lparr>o_maxZoom := Some 5\<rparr>\<rparr>)"
    using isVisible_opacity_zoom_flag
      [of "attached_layer\<lparr>l_options := default_options\<lparr>o_maxZoom := Some 5\<rparr>\<rparr>"]
    by (simp add: attached_layer_def blank_def default_options_def example_map_def)
  moreover
  have "isVisible (detached_layer\<lparr>l_options := default_options\<lparr>o_maxZoom := Some 5, o_visible := JNull\<rparr>\<rparr>) =
     (JBool True, detached_layer\<lparr>l_options := default_options\<lparr>o_maxZoom := Some 5, o_visible := JBool True\<rparr>\<rparr>)"
    using isVisible_opacity_zoom_flag
      [of "detached_layer\<lparr>l_options := default_options\<lparr>o_maxZoom := Some 5, o_visible := JNull\<rparr>\<rparr>"]
    by (simp add: detached_layer_def blank_def default_options_def)
  ultimately show ?thesis
    by simp
qed

section \<open>Zoom bounds\<close>

lemma getMinZoom_attached:
  "l_map w \<Longrightarrow>
   getMinZoom w =
     Some (max (m_minZoom (the_map w)) (case o_minZoom (l_options w) of None \<Rightarrow> 0 | Some z \<Rightarrow> z))"
  by (cases "o_minZoom (l_options w)") (auto simp add: getMinZoom_def getMap_def max_def)

lemma getMaxZoom_attached:
  "l_map w \<Longrightarrow>
   getMaxZoom w =
     Some (Fin (case o_maxZoom (l_options w) of
                  None \<Rightarrow> m_maxZoom (the_map w)
                | Some z \<Rightarrow> min (m_maxZoom (the_map w)) z))"
  by (cases "o_maxZoom (l_options w)") (auto simp add: getMaxZoom_def getMap_def min_def)

lemma zoom_bounds_detached:
  "\<not> l_map w \<Longrightarrow>
   getMinZoom w = o_minZoom (l_options w) \<and>
   getMaxZoom w = map_option Fin (o_maxZoom (l_options w))"
  by (simp add: getMinZoom_def getMaxZoom_def getMap_def)

text \<open>
  C6, as the code has it. With a map, \<open>getMinZoom()\<close> is the maximum of the map's
  \<open>minZoom\<close> and the layer's own, where a nil layer bound counts as 0, and it is at
  least the map's \<open>minZoom\<close>; \<open>getMaxZoom()\<close> is the minimum of the map's \<open>maxZoom\<close>
  and the layer's own, where a nil layer bound imposes no limit, and it is at most the
  map's \<open>maxZoom\<close>. Without a map both answer the raw option.
\<close>

theorem zoom_bounds_clamped_to_map:
  "(l_map w \<longrightarrow>
      getMinZoom w =
        Some (max (m_minZoom (the_map w))
                (case o_minZoom (l_options w) of None \<Rightarrow> 0 | Some z \<Rightarrow> z)) \<and>
      (\<exists>z. getMinZoom w = Some z \<and> m_minZoom (the_map w) \<le> z) \<and>
      getMaxZoom w =
        Some (Fin (case o_maxZoom (l_options w) of
                     None \<Rightarrow> m_maxZoom (the_map w)
                   | Some z \<Rightarrow> min (m_maxZoom (the_map w)) z)) \<and>
      (\<exists>z. getMaxZoom w = Some (Fin z) \<and> z \<le> m_maxZoom (the_map w))) \<and>
   (\<not> l_map w \<longrightarrow>
      getMinZoom w = o_minZoom (l_options w) \<and>
      getMaxZoom w = map_option Fin (o_maxZoom (l_options w)))"
proof (intro conjI impI)
  assume m: "l_map w"
  show "getMinZoom w =
        Some (max (m_minZoom (the_map w))
                (case o_minZoom (l_options w) of None \<Rightarrow> 0 | Some z \<Rightarrow> z))"
    using m by (rule getMinZoom_attached)
  then show "\<exists>z. getMinZoom w = Some z \<and> m_minZoom (the_map w) \<le> z"
    by simp
  show "getMaxZoom w =
        Some (Fin (case o_maxZoom (l_options w) of
                     None \<Rightarrow> m_maxZoom (the_map w)
                   | Some z \<Rightarrow> min (m_maxZoom (the_map w)) z))"
    using m by (rule getMaxZoom_attached)
  then show "\<exists>z. getMaxZoom w = Some (Fin z) \<and> z \<le> m_maxZoom (the_map w)"
    by (cases "o_maxZoom (l_options w)") simp_all
next
  assume "\<not> l_map w"
  then show "getMinZoom w = o_minZoom (l_options w)"
    and "getMaxZoom w = map_option Fin (o_maxZoom (l_options w))"
    by (simp_all add: zoom_bounds_detached)
qed

theorem zoom_bounds_clamped_to_map_witness:
  "getMinZoom (attached_layer\<lparr>l_options := default_options\<lparr>o_minZoom := Some 5\<rparr>\<rparr>) = Some 5 \<and>
   getMaxZoom (attached_layer\<lparr>l_options := default_options\<lparr>o_maxZoom := Some 20\<rparr>\<rparr>) = Some (Fin 18) \<and>
   getMaxZoom attached_layer = Some (Fin 18) \<and>
   getMinZoom (detached_layer\<lparr>l_options := default_options\<lparr>o_minZoom := Some 1\<rparr>\<rparr>) = Some 1 \<and>
   getMaxZoom detached_layer = None"
  using zoom_bounds_clamped_to_map [of "attached_layer\<lparr>l_options := default_options\<lparr>o_minZoom := Some 5\<rparr>\<rparr>"]
    zoom_bounds_clamped_to_map [of "attached_layer\<lparr>l_options := default_options\<lparr>o_maxZoom := Some 20\<rparr>\<rparr>"]
    zoom_bounds_clamped_to_map [of attached_layer]
    zoom_bounds_clamped_to_map [of "detached_layer\<lparr>l_options := default_options\<lparr>o_minZoom := Some 1\<rparr>\<rparr>"]
    zoom_bounds_clamped_to_map [of detached_layer]
  by (simp add: attached_layer_def detached_layer_def blank_def default_options_def example_map_def)

text \<open>
  C6 as stated fails for \<open>getMinZoom()\<close>: with a nil layer bound on a map whose
  \<open>minZoom\<close> is \<open>-1\<close>, the answer is 0 and not the map's bound.
\<close>

theorem nil_minZoom_is_zero_counterexample:
  "l_map below_zero_map_layer \<and>
   o_minZoom (l_options below_zero_map_layer) = None \<and>
   m_minZoom (the_map below_zero_map_layer) = - 1 \<and>
   getMinZoom below_zero_map_layer = Some 0 \<and>
   getMinZoom below_zero_map_layer \<noteq> Some (m_minZoom (the_map below_zero_map_layer))"
  by (simp add: below_zero_map_layer_def attached_layer_def blank_def default_options_def
      example_map_def getMinZoom_def getMap_def)

section \<open>Setting a mask\<close>

lemma redraw_if_declared_eq:
  "redraw_if_declared w =
     Ok (if (case l_renderer w of None \<Rightarrow> False | Some r \<Rightarrow> r_hasSetToRedraw r)
         then w\<lparr>l_trace := l_trace w @ [RendererSetToRedraw]\<rparr> else w)"
  by (cases "l_renderer w")
    (simp_all add: redraw_if_declared_def guarded_def renderer_call_def getRenderer_def log_def)

lemma setMask_rejected:
  assumes "\<not> ((g_type g = ''Point'' \<and> g_isVectorMarker g) \<or> g_type g = ''Polygon'' \<or>
              g_type g = ''MultiPolygon'')"
  shows "setMask g w = Throw mask_error w"
  using assms by (simp add: setMask_def)

lemma setMask_accepted:
  assumes "(g_type g = ''Point'' \<and> g_isVectorMarker g) \<or> g_type g = ''Polygon'' \<or>
           g_type g = ''MultiPolygon''"
  shows "setMask g w =
     Ok (w\<lparr>l_mask := Some (restyled g),
           l_options := (l_options w)\<lparr>o_mask := Some (toJSON (restyled g))\<rparr>,
           l_trace := l_trace w
             @ [MaskBindLayer,
                if g_type g = ''Point'' then MaskUpdateSymbol point_restyle
                else MaskSetSymbol polygon_restyle]
             @ (if l_map w \<and> \<not> m_zooming (the_map w) \<and>
                   (case l_renderer w of None \<Rightarrow> False | Some r \<Rightarrow> r_hasSetToRedraw r)
                then [RendererSetToRedraw] else [])\<rparr>)"
  using assms
  by (auto simp add: setMask_def assign_def log_def getMap_def redraw_if_declared_eq)

lemma restyled_mask:
  "g_bound (restyled g) \<and> g_type (restyled g) = g_type g \<and>
   g_symbol (restyled g) =
     (if g_type g = ''Point'' then Object_assign (g_symbol g) point_restyle else polygon_restyle)"
  by (simp add: restyled_def updateSymbol_def setSymbol_def bindLayer_def)

text \<open>
  C5. \<open>setMask\<close> throws for a geometry that is neither a point with vector-marker
  styling nor a polygon nor a multi-polygon, and the layer is then exactly as before: no
  mask stored, no option set, no call on the mask. For an accepted geometry it completes:
  the mask is bound to the layer and restyled (\<open>updateSymbol\<close> with the transparent
  marker properties for a point, \<open>setSymbol\<close> with the transparent polygon symbol
  otherwise), and the layer stores the restyled geometry and its serialized form.
\<close>

theorem setMask_rejects_or_binds_restyles_stores:
  "(\<not> ((g_type g = ''Point'' \<and> g_isVectorMarker g) \<or> g_type g = ''Polygon'' \<or>
        g_type g = ''MultiPolygon'') \<longrightarrow>
      setMask g w = Throw mask_error w) \<and>
   ((g_type g = ''Point'' \<and> g_isVectorMarker g) \<or> g_type g = ''Polygon'' \<or>
     g_type g = ''MultiPolygon'' \<longrightarrow>
      setMask g w =
        Ok (w\<lparr>l_mask := Some (restyled g),
              l_options := (l_options w)\<lparr>o_mask := Some (toJSON (restyled g))\<rparr>,
              l_trace := l_trace w
                @ [MaskBindLayer,
                   if g_type g = ''Point'' then MaskUpdateSymbol point_restyle
                   else MaskSetSymbol polygon_restyle]
                @ (if l_map w \<and> \<not> m_zooming (the_map w) \<and>
                      (case l_renderer w of None \<Rightarrow> False | Some r \<Rightarrow> r_hasSetToRedraw r)
                   then [RendererSetToRedraw] else [])\<rparr>) \<and>
      g_bound (restyled g) \<and> g_type (restyled g) = g_type g \<and>
      g_symbol (restyled g) =
        (if g_type g = ''Point'' then Object_assign (g_symbol g) point_restyle
         else polygon_restyle) \<and>
      j_symbol (toJSON (restyled g)) = g_symbol (restyled g))"
  using setMask_rejected [of g w] setMask_accepted [of g w] restyled_mask [of g]
  by (simp add: toJSON_def)

theorem setMask_rejects_or_binds_restyles_stores_witness:
  "setMask line_geometry rendered_layer = Throw mask_error rendered_layer \<and>
   map_option g_type (l_mask (state_of (setMask polygon_geometry rendered_layer))) = Some ''Polygon'' \<and>
   map_option g_symbol (l_mask (state_of (setMask polygon_geometry rendered_layer))) =
     Some [(''lineColor'', JStr ''rgba(0, 0, 0, 0)''), (''polygonOpacity'', JNum 0)] \<and>
   l_trace (state_of (setMask polygon_geometry rendered_layer)) =
     [MaskBindLayer, MaskSetSymbol polygon_restyle, RendererSetToRedraw] \<and>
   map_option g_symbol (l_mask (state_of (setMask marker_geometry detached_layer))) =
     Some [(''markerType'', JStr ''ellipse''), (''markerFillOpacity'', JNum 0),
           (''markerLineColor'', JStr ''rgba(0, 0, 0, 0)'')] \<and>
   l_trace (state_of (setMask marker_geometry detached_layer)) =
     [MaskBindLayer, MaskUpdateSymbol point_restyle]"
proof -
  have line: "setMask line_geometry rendered_layer = Throw mask_error rendered_layer"
    using setMask_rejects_or_binds_restyles_stores [of line_geometry rendered_layer]
    by (simp add: line_geometry_def)
  have polygon: "setMask polygon_geometry rendered_layer =
      Ok (rendered_layer\<lparr>l_mask := Some (restyled polygon_geometry),
            l_options := (l_options rendered_layer)\<lparr>o_mask := Some (toJSON (restyled polygon_geometry))\<rparr>,
            l_trace := [MaskBindLayer, MaskSetSymbol polygon_restyle, RendererSetToRedraw]\<rparr>)"
    using setMask_rejects_or_binds_restyles_stores [of polygon_geometry rendered_layer]
    by (simp add: polygon_geometry_def rendered_layer_def blank_def example_map_def
        canvas_renderer_def)
  have marker: "setMask marker_geometry detached_layer =
      Ok (detached_layer\<lparr>l_mask := Some (restyled marker_geometry),
            l_options := (l_options detached_layer)\<lparr>o_mask := Some (toJSON (restyled marker_geometry))\<rparr>,
            l_trace := [MaskBindLayer, MaskUpdateSymbol point_restyle]\<rparr>)"
    using setMask_rejects_or_binds_restyles_stores [of marker_geometry detached_layer]
    by (simp add: marker_geometry_def detached_layer_def blank_def)
  show ?thesis
    apply (simp only: line polygon marker)
    apply (simp add: restyled_def updateSymbol_def setSymbol_def bindLayer_def
        polygon_geometry_def marker_geometry_def point_restyle_def polygon_restyle_def)
    done
qed

section \<open>Loading\<close>

lemma switchEvents_eq:
  "switchEvents env to emitter w =
     Ok (if (case emitter of
               EmLayer \<Rightarrow> e_layerGetEvents env
             | EmRenderer \<Rightarrow> (case l_renderer w of None \<Rightarrow> False | Some r \<Rightarrow> r_hasGetEvents r)) \<and>
            l_map w
         then w\<lparr>l_trace := l_trace w @ [MapSwitchEvents to emitter]\<rparr> else w)"
  by (simp add: switchEvents_def guarded_def map_call_def getMap_def log_def)

lemma initRenderer_no_registry:
  "e_getRendererClass env = None \<Longrightarrow> initRenderer env w = Ok w"
  by (simp add: initRenderer_def)

lemma initRenderer_unknown:
  "e_getRendererClass env = Some reg \<Longrightarrow> reg (o_renderer (l_options w)) = None \<Longrightarrow>
   initRenderer env w = Throw (renderer_error env w) w"
  by (simp add: initRenderer_def)

lemma initRenderer_known:
  assumes "e_getRendererClass env = Some reg" and "reg (o_renderer (l_options w)) = Some c"
  shows "initRenderer env w =
     Ok (w\<lparr>l_renderer := Some c,
           l_trace := l_trace w
             @ [RendererNew (r_class c), RendererSetZIndex (Some (getZIndex w))]
             @ (if r_hasGetEvents c \<and> l_map w then [MapSwitchEvents ''on'' EmRenderer] else [])
             @ (if r_hasOnAdd c then [RendererOnAdd] else [])
             @ [Hook ''onRendererCreate'']
             @ (if l_map w
                then [MapOnLayerEvent (stamp ''renderercreate'' [(''renderer'', PRenderer c)])]
                else [])
             @ [LocalDispatch ''renderercreate''
                  (Some (if l_map w then stamp ''renderercreate'' [(''renderer'', PRenderer c)]
                         else [(''renderer'', PRenderer c)]))]\<rparr>)"
  using assms
  by (simp add: initRenderer_def assign_def guarded_def renderer_call_def log_def
      switchEvents_eq getZIndex_def fire_closed_form fire_argument_def)

lemma load_detached: "\<not> l_map w \<Longrightarrow> load env w = Ok w"
  by (simp add: load_def getMap_def)

lemma load_ceased:
  "l_map w \<Longrightarrow> \<not> e_onLoad env (log (Hook ''onLoad'') w) \<Longrightarrow>
   load env w = Ok (log (Hook ''onLoad'') w)"
  by (simp add: load_def getMap_def assign_def guarded_def)

lemma load_unknown_renderer:
  assumes "l_map w" and "e_onLoad env (log (Hook ''onLoad'') w)"
    and "e_getRendererClass env = Some reg" and "reg (o_renderer (l_options w)) = None"
  shows "load env w =
     Throw (Error (''Invalid renderer for Layer('' @ ToString env (l_id w) @ ''):'' @
                   o_renderer (l_options w)))
       (log (Hook ''onLoad'') w)"
proof -
  have "initRenderer env (log (Hook ''onLoad'') w) =
      Throw (renderer_error env (log (Hook ''onLoad'') w)) (log (Hook ''onLoad'') w)"
    using assms(3,4) initRenderer_unknown [of env reg "log (Hook ''onLoad'') w"]
    by (simp add: log_def)
  with assms(1,2) show ?thesis
    by (simp add: load_def getMap_def assign_def guarded_def renderer_error_def getId_def
        log_def)
qed

lemma load_success:
  assumes "l_map w" and "e_onLoad env (log (Hook ''onLoad'') w)"
    and "e_getRendererClass env = Some reg" and "reg (o_renderer (l_options w)) = Some c"
  shows "load env w =
     Ok (w\<lparr>l_renderer := Some c,
           l_trace := l_trace w
             @ [Hook ''onLoad'', RendererNew (r_class c), RendererSetZIndex (Some (getZIndex w))]
             @ (if r_hasGetEvents c then [MapSwitchEvents ''on'' EmRenderer] else [])
             @ (if r_hasOnAdd c then [RendererOnAdd] else [])
             @ [Hook ''onRendererCreate'',
                MapOnLayerEvent (stamp ''renderercreate'' [(''renderer'', PRenderer c)]),
                LocalDispatch ''renderercreate''
                  (Some (stamp ''renderercreate'' [(''renderer'', PRenderer c)])),
                RendererSetZIndex (Some (getZIndex w))]
             @ (if \<not> r_isCanvas c then [RendererRender] else [])
             @ [Hook ''onLoadEnd'']\<rparr>)"
proof -
  have init: "initRenderer env (log (Hook ''onLoad'') w) =
     Ok ((log (Hook ''onLoad'') w)\<lparr>l_renderer := Some c,
           l_trace := l_trace (log (Hook ''onLoad'') w)
             @ [RendererNew (r_class c), RendererSetZIndex (Some (getZIndex (log (Hook ''onLoad'') w)))]
             @ (if r_hasGetEvents c \<and> l_map (log (Hook ''onLoad'') w)
                then [MapSwitchEvents ''on'' EmRenderer] else [])
             @ (if r_hasOnAdd c then [RendererOnAdd] else [])
             @ [Hook ''onRendererCreate'']
             @ (if l_map (log (Hook ''onLoad'') w)
                then [MapOnLayerEvent (stamp ''renderercreate'' [(''renderer'', PRenderer c)])]
                else [])
             @ [LocalDispatch ''renderercreate''
                  (Some (if l_map (log (Hook ''onLoad'') w)
                         then stamp ''renderercreate'' [(''renderer'', PRenderer c)]
                         else [(''renderer'', PRenderer c)]))]\<rparr>)"
    using assms(3,4) initRenderer_known [of env reg "log (Hook ''onLoad'') w" c]
    by (simp add: log_def)
  from assms(1,2) show ?thesis
    unfolding load_def
    by (simp add: getMap_def assign_def guarded_def init)
      (simp add: log_def renderer_call_def getZIndex_def isCanvasRender_def getRenderer_def
        guarded_def assign_def)
qed

text \<open>
  A class without the registry: \<open>_initRenderer\<close> returns silently, and \<open>load()\<close> then
  calls \<open>setZIndex\<close> on the renderer field, which throws when no renderer is there.
\<close>

lemma load_without_registry:
  assumes "l_map w" and "e_onLoad env (log (Hook ''onLoad'') w)"
    and "e_getRendererClass env = None" and "l_renderer w = None"
  shows "load env w = Throw TypeError (log (Hook ''onLoad'') w)"
  using assms initRenderer_no_registry [of env "log (Hook ''onLoad'') w"]
  by (simp add: load_def getMap_def assign_def guarded_def renderer_call_def log_def)

lemma load_without_registry_renderer_kept:
  assumes "l_map w" and "e_onLoad env (log (Hook ''onLoad'') w)"
    and "e_getRendererClass env = None" and "l_renderer w = Some r"
  shows "load env w =
     Ok (w\<lparr>l_trace := l_trace w
           @ [Hook ''onLoad'', RendererSetZIndex (Some (getZIndex w))]
           @ (if \<not> r_isCanvas r then [RendererRender] else [])
           @ [Hook ''onLoadEnd'']\<rparr>)"
  using assms initRenderer_no_registry [of env "log (Hook ''onLoad'') w"]
  by (simp add: load_def getMap_def assign_def guarded_def renderer_call_def log_def
      getZIndex_def isCanvasRender_def getRenderer_def)

lemma getZIndex_eq: "getZIndex w = (case l_zIndex w of None \<Rightarrow> 0 | Some z \<Rightarrow> z)"
  by (cases "l_zIndex w") (simp_all add: getZIndex_def)

text \<open>
  C4, as the code has it. \<open>load()\<close> on a layer without a map does nothing. With a map,
  when \<open>onLoad()\<close> answers false, only that hook has run: no renderer is created and
  \<open>onLoadEnd()\<close> is not called. When it answers true and the layer's class has a
  renderer registry: if the registry has no implementation for the configured kind,
  \<open>load()\<close> throws the error naming the layer id and the kind, and at the throw only
  \<open>onLoad()\<close> has run and the renderer field is as before; if it has one, the renderer
  is created and initialized, the layer's z-index (0 when none is set) is pushed to it,
  a render is requested unless it is a canvas renderer, and \<open>onLoadEnd()\<close> runs last.
  Without a registry \<open>_initRenderer\<close> creates no renderer and changes nothing.
\<close>

theorem load_lifecycle:
  "(\<not> l_map w \<longrightarrow> load env w = Ok w) \<and>
   (l_map w \<and> \<not> e_onLoad env (w\<lparr>l_trace := l_trace w @ [Hook ''onLoad'']\<rparr>) \<longrightarrow>
      load env w = Ok (w\<lparr>l_trace := l_trace w @ [Hook ''onLoad'']\<rparr>)) \<and>
   (e_getRendererClass env = None \<longrightarrow> initRenderer env w = Ok w) \<and>
   (l_map w \<and> e_onLoad env (w\<lparr>l_trace := l_trace w @ [Hook ''onLoad'']\<rparr>) \<and>
    e_getRendererClass env = Some reg \<and> reg (o_renderer (l_options w)) = None \<longrightarrow>
      load env w =
        Throw (Error (''Invalid renderer for Layer('' @ ToString env (l_id w) @ ''):'' @
                      o_renderer (l_options w)))
          (w\<lparr>l_trace := l_trace w @ [Hook ''onLoad'']\<rparr>)) \<and>
   (l_map w \<and> e_onLoad env (w\<lparr>l_trace := l_trace w @ [Hook ''onLoad'']\<rparr>) \<and>
    e_getRendererClass env = Some reg \<and> reg (o_renderer (l_options w)) = Some c \<longrightarrow>
      load env w =
        Ok (w\<lparr>l_renderer := Some c,
              l_trace := l_trace w
                @ [Hook ''onLoad'', RendererNew (r_class c),
                   RendererSetZIndex (Some (case l_zIndex w of None \<Rightarrow> 0 | Some z \<Rightarrow> z))]
                @ (if r_hasGetEvents c then [MapSwitchEvents ''on'' EmRenderer] else [])
                @ (if r_hasOnAdd c then [RendererOnAdd] else [])
                @ [Hook ''onRendererCreate'',
                   MapOnLayerEvent (stamp ''renderercreate'' [(''renderer'', PRenderer c)]),
                   LocalDispatch ''renderercreate''
                     (Some (stamp ''renderercreate'' [(''renderer'', PRenderer c)])),
                   RendererSetZIndex (Some (case l_zIndex w of None \<Rightarrow> 0 | Some z \<Rightarrow> z))]
                @ (if \<not> r_isCanvas c then [RendererRender] else [])
                @ [Hook ''onLoadEnd'']\<rparr>))"
  using load_detached [of w env] load_ceased [of w env] initRenderer_no_registry [of env w]
    load_unknown_renderer [of w env reg] load_success [of w env reg c]
  by (simp add: log_def getZIndex_eq)

theorem load_lifecycle_witness:
  "load example_env detached_layer = Ok detached_layer \<and>
   load (example_env\<lparr>e_onLoad := (\<lambda>w. False)\<rparr>) attached_layer =
     Ok (attached_layer\<lparr>l_trace := [Hook ''onLoad'']\<rparr>) \<and>
   initRenderer no_registry_env attached_layer = Ok attached_layer \<and>
   load example_env
     (attached_layer\<lparr>l_id := JStr ''roads'', l_options := default_options\<lparr>o_renderer := ''gl''\<rparr>\<rparr>) =
     Throw (Error ''Invalid renderer for Layer(roads):gl'')
       (attached_layer\<lparr>l_id := JStr ''roads'', l_options := default_options\<lparr>o_renderer := ''gl''\<rparr>,
          l_trace := [Hook ''onLoad'']\<rparr>) \<and>
   load example_env raised_dom_layer =
     Ok (raised_dom_layer\<lparr>l_renderer := Some dom_renderer,
           l_trace :=
            [Hook ''onLoad'', RendererNew ''DomRenderer'', RendererSetZIndex (Some 7),
             Hook ''onRendererCreate'',
             MapOnLayerEvent [(''renderer'', PRenderer dom_renderer),
                              (''type'', PVal (JStr ''renderercreate'')), (''target'', PThis)],
             LocalDispatch ''renderercreate''
               (Some [(''renderer'', PRenderer dom_renderer),
                      (''type'', PVal (JStr ''renderercreate'')), (''target'', PThis)]),
             RendererSetZIndex (Some 7), RendererRender, Hook ''onLoadEnd'']\<rparr>) \<and>
   l_trace (state_of (load example_env attached_layer)) =
     [Hook ''onLoad'', RendererNew ''CanvasRenderer'', RendererSetZIndex (Some 0),
      MapSwitchEvents ''on'' EmRenderer, RendererOnAdd, Hook ''onRendererCreate'',
      MapOnLayerEvent [(''renderer'', PRenderer canvas_renderer),
                       (''type'', PVal (JStr ''renderercreate'')), (''target'', PThis)],
      LocalDispatch ''renderercreate''
        (Some [(''renderer'', PRenderer canvas_renderer),
               (''type'', PVal (JStr ''renderercreate'')), (''target'', PThis)]),
      RendererSetZIndex (Some 0), Hook ''onLoadEnd'']"
proof -
  let ?reg = "\<lambda>kind. if kind = ''canvas'' then Some canvas_renderer
                      else if kind = ''dom'' then Some dom_renderer else None"
  let ?gl = "attached_layer\<lparr>l_id := JStr ''roads'', l_options := default_options\<lparr>o_renderer := ''gl''\<rparr>\<rparr>"
  have c1: "load example_env detached_layer = Ok detached_layer"
    using load_lifecycle [of detached_layer example_env]
    by (simp add: detached_layer_def blank_def)
  have c2: "load (example_env\<lparr>e_onLoad := (\<lambda>w. False)\<rparr>) attached_layer =
     Ok (attached_layer\<lparr>l_trace := [Hook ''onLoad'']\<rparr>)"
    using load_lifecycle [of attached_layer "example_env\<lparr>e_onLoad := (\<lambda>w. False)\<rparr>"]
    by (simp add: attached_layer_def blank_def)
  have c3: "initRenderer no_registry_env attached_layer = Ok attached_layer"
    using load_lifecycle [of attached_layer no_registry_env]
    by (simp add: no_registry_env_def)
  have c4: "load example_env ?gl =
     Throw (Error ''Invalid renderer for Layer(roads):gl'') (?gl\<lparr>l_trace := [Hook ''onLoad'']\<rparr>)"
    using load_lifecycle [of ?gl example_env ?reg]
    by (simp add: attached_layer_def blank_def example_env_def default_options_def)
  have c5: "load example_env raised_dom_layer =
     Ok (raised_dom_layer\<lparr>l_renderer := Some dom_renderer,
           l_trace :=
            [Hook ''onLoad'', RendererNew ''DomRenderer'', RendererSetZIndex (Some 7),
             Hook ''onRendererCreate'',
             MapOnLayerEvent [(''renderer'', PRenderer dom_renderer),
                              (''type'', PVal (JStr ''renderercreate'')), (''target'', PThis)],
             LocalDispatch ''renderercreate''
               (Some [(''renderer'', PRenderer dom_renderer),
                      (''type'', PVal (JStr ''renderercreate'')), (''target'', PThis)]),
             RendererSetZIndex (Some 7), RendererRender, Hook ''onLoadEnd'']\<rparr>)"
    using load_lifecycle [of raised_dom_layer example_env ?reg dom_renderer]
    by (simp add: raised_dom_layer_def attached_layer_def blank_def example_env_def
        default_options_def stamp_def)
      (simp add: dom_renderer_def)
  have c6: "load example_env attached_layer =
     Ok (attached_layer\<lparr>l_renderer := Some canvas_renderer,
           l_trace :=
            [Hook ''onLoad'', RendererNew ''CanvasRenderer'', RendererSetZIndex (Some 0),
             MapSwitchEvents ''on'' EmRenderer, RendererOnAdd, Hook ''onRendererCreate'',
             MapOnLayerEvent [(''renderer'', PRenderer canvas_renderer),
                              (''type'', PVal (JStr ''renderercreate'')), (''target'', PThis)],
             LocalDispatch ''renderercreate''
               (Some [(''renderer'', PRenderer canvas_renderer),
                      (''type'', PVal (JStr ''renderercreate'')), (''target'', PThis)]),
             RendererSetZIndex (Some 0), Hook ''onLoadEnd'']\<rparr>)"
    using load_lifecycle [of attached_layer example_env ?reg canvas_renderer]
    by (simp add: attached_layer_def blank_def example_env_def default_options_def stamp_def)
      (simp add: canvas_renderer_def)
  show ?thesis
    by (simp only: c1 c2 c3 c4 c5 c6) simp
qed

text \<open>
  C4 as stated fails for a layer class without a renderer registry: \<open>onLoad()\<close> answers
  true, yet no renderer is initialized, and \<open>load()\<close> ends neither with the
  unknown-renderer error nor with \<open>onLoadEnd()\<close>, but with a TypeError.
\<close>

theorem load_without_registry_counterexample:
  "l_map attached_layer \<and>
   e_onLoad no_registry_env (attached_layer\<lparr>l_trace := [Hook ''onLoad'']\<rparr>) \<and>
   load no_registry_env attached_layer =
     Throw TypeError (attached_layer\<lparr>l_trace := [Hook ''onLoad'']\<rparr>) \<and>
   l_renderer (state_of (load no_registry_env attached_layer)) = None"
proof -
  have facts: "l_map attached_layer" "l_renderer attached_layer = None"
    "l_trace attached_layer = []"
    "e_onLoad no_registry_env (log (Hook ''onLoad'') attached_layer)"
    "e_getRendererClass no_registry_env = None"
    by (simp_all add: attached_layer_def blank_def no_registry_env_def example_env_def)
  have "load no_registry_env attached_layer =
      Throw TypeError (log (Hook ''onLoad'') attached_layer)"
    using facts by (intro load_without_registry)
  then show ?thesis
    using facts by (simp add: log_def no_registry_env_def example_env_def)
qed

section \<open>The collision index\<close>

lemma getCollisionIndex_layer_scope:
  assumes "o_collisionScope (l_options w) = ''layer''"
  shows "getCollisionIndex w =
     (case l_collisionIndex w of
        None \<Rightarrow>
          (Some \<lparr>ci_ref = l_fresh w, ci_boxes = []\<rparr>,
           w\<lparr>l_collisionIndex := Some \<lparr>ci_ref = l_fresh w, ci_boxes = []\<rparr>,
              l_fresh := Suc (l_fresh w)\<rparr>)
      | Some ci \<Rightarrow> (Some ci, w))"
  using assms
  by (cases "l_collisionIndex w") (simp_all add: getCollisionIndex_def new_CollisionIndex_def)

lemma getCollisionIndex_cached:
  assumes "o_collisionScope (l_options w) = ''layer''"
  shows "getCollisionIndex (snd (getCollisionIndex w)) =
           (fst (getCollisionIndex w), snd (getCollisionIndex w))"
  using assms
  by (cases "l_collisionIndex w") (simp_all add: getCollisionIndex_def new_CollisionIndex_def)

lemma getCollisionIndex_other_scope:
  assumes "o_collisionScope (l_options w) \<noteq> ''layer''"
  shows "getCollisionIndex w =
           (if l_map w then Some (m_collisionIndex (the_map w)) else None, w)"
  using assms by (simp add: getCollisionIndex_def getMap_def)

lemma clearCollisionIndex_eq:
  "clearCollisionIndex w =
     Ok (case l_collisionIndex w of
           None \<Rightarrow> w
         | Some ci \<Rightarrow>
             if o_collisionScope (l_options w) = ''layer''
             then w\<lparr>l_collisionIndex := Some (ci\<lparr>ci_boxes := []\<rparr>),
                    l_trace := l_trace w @ [CollisionIndexClear (ci_ref ci)]\<rparr>
             else w)"
  by (cases "l_collisionIndex w")
    (simp_all add: clearCollisionIndex_def guarded_def collisionIndex_clear_def log_def)

section \<open>Bringing a layer to the front\<close>

lemma entry_zIndex_depends_on_zIndex:
  "l_zIndex w' = l_zIndex w \<Longrightarrow> entry_zIndex w' = entry_zIndex w"
proof
  fix e
  assume "l_zIndex w' = l_zIndex w"
  then show "entry_zIndex w' e = entry_zIndex w e"
    by (cases e) (simp_all add: getZIndex_def)
qed

lemma setZIndex_closed_form:
  "setZIndex z w =
     Ok (w\<lparr>l_zIndex := z,
           l_options := (l_options w)\<lparr>o_zIndex := z\<rparr>,
           the_map :=
             (if l_map w
              then (the_map w)\<lparr>m_layers :=
                     sort_key (entry_zIndex (w\<lparr>l_zIndex := z\<rparr>)) (m_layers (the_map w))\<rparr>
              else the_map w),
           l_trace := l_trace w
             @ (if l_map w then [MapSortLayersByZIndex] else [])
             @ (if l_renderer w \<noteq> None then [RendererSetZIndex z] else [])
             @ (if l_map w
                then [MapOnLayerEvent (stamp ''setzindex'' [(''zIndex'', PNum z)])]
                else [])
             @ [LocalDispatch ''setzindex''
                  (Some (if l_map w then stamp ''setzindex'' [(''zIndex'', PNum z)]
                         else [(''zIndex'', PNum z)]))]\<rparr>)"
proof -
  have key: "entry_zIndex (w\<lparr>l_zIndex := z', l_options := opts\<rparr>) = entry_zIndex (w\<lparr>l_zIndex := z'\<rparr>)"
    for z' opts
    by (rule entry_zIndex_depends_on_zIndex) simp
  show ?thesis
    by (cases "l_renderer w")
      (auto simp add: setZIndex_def assign_def guarded_def map_call_def renderer_call_def
        map_sortLayersByZIndex_def log_def fire_closed_form fire_argument_def key)
qed




text \<open>Rounding: a tie at \<open>2 ^ 53 + 1\<close>, and exactness on the integers up to \<open>2 ^ 53\<close>.\<close>

lemma exponent_eq:
  fixes y :: real
  assumes "2 ^ k \<le> y" and "y < 2 ^ Suc k"
  shows "\<lfloor>Transcendental.log 2 y\<rfloor> = int k"
proof -
  have pos: "0 < y"
    using assms(1) by (smt (verit) zero_less_power)
  have "2 powr real_of_int (int k) \<le> y \<and> y < 2 powr real_of_int (int k + 1)"
    using assms by (simp add: powr_realpow powr_add)
  then show ?thesis
    using floor_log_eq_powr_iff [of y 2 "int k"] pos by simp
qed

lemma double_round_4: "double_round 4 = 4"
proof -
  have e: "\<lfloor>Transcendental.log 2 (4::real)\<rfloor> = 2"
    using exponent_eq [of 2 4] by simp
  show ?thesis
    by (simp add: double_round_def e Let_def power_int_minus)
qed










section \<open>Setting the id\<close>

lemma setId_closed_form:
  "setId env v w =
     Ok (w\<lparr>l_id := (if isNil v then v else JStr (ToString env v)),
           l_trace := l_trace w
             @ (if l_map w
                then [MapOnLayerEvent
                        (stamp ''idchange''
                           [(''old'', PVal (l_id w)),
                            (''new'', PVal (if isNil v then v else JStr (ToString env v)))])]
                else [])
             @ [LocalDispatch ''idchange''
                  (Some (if l_map w
                         then stamp ''idchange''
                                [(''old'', PVal (l_id w)),
                                 (''new'', PVal (if isNil v then v else JStr (ToString env v)))]
                         else [(''old'', PVal (l_id w)),
                               (''new'', PVal (if isNil v then v else JStr (ToString env v)))]))]\<rparr>)"
  by (simp add: setId_def assign_def fire_closed_form fire_argument_def Let_def)

lemma setMask_extends_trace:
  "\<exists>ts. l_trace (state_of (setMask g w)) = l_trace w @ ts"
proof (cases "(g_type g = ''Point'' \<and> g_isVectorMarker g) \<or> g_type g = ''Polygon'' \<or>
    g_type g = ''MultiPolygon''")
  case True
  show ?thesis
    using setMask_accepted [OF True, of w] by simp
next
  case False
  show ?thesis
    using setMask_rejected [OF False, of w] by simp
qed

lemma then_log_extends_trace:
  assumes "\<exists>ts. l_trace (state_of r) = t @ ts"
  shows "\<exists>ts. l_trace (state_of (case r of Ok w' \<Rightarrow> assign (log e) w' | Throw x w' \<Rightarrow> Throw x w')) =
     t @ ts"
  using assms by (cases r) (auto simp add: assign_def log_def)

lemma constructor_trace:
  "\<exists>rest. l_trace (state_of (constructor env m n v opts)) =
     LocalDispatch ''idchange''
       (Some [(''old'', PVal JUndefined),
              (''new'', PVal (if isNil v then v else JStr (ToString env v)))]) # rest"
proof (cases opts)
  case None
  then show ?thesis
    by (simp add: constructor_def assign_def setId_closed_form blank_def log_def)
next
  case (Some given)
  let ?first = "LocalDispatch ''idchange''
       (Some [(''old'', PVal JUndefined),
              (''new'', PVal (if isNil v then v else JStr (ToString env v)))])"
  show ?thesis
  proof (cases "o_mask (c_options given)")
    case None
    with Some show ?thesis
      by (simp add: constructor_def assign_def setId_closed_form setZIndex_closed_form
          blank_def log_def)
  next
    case (Some j)
    obtain w2 where w2: "setZIndex (o_zIndex (c_options given))
        ((blank m n)\<lparr>l_options := c_options given, l_canvas := c_canvas given,
           l_id := (if isNil v then v else JStr (ToString env v)),
           l_trace := [?first]\<rparr>) = Ok w2"
      and t2: "\<exists>ts. l_trace w2 = [?first] @ ts"
      by (simp add: setZIndex_closed_form blank_def)
    from t2 obtain ts where ts: "l_trace w2 = [?first] @ ts"
      by blast
    obtain ts' where "l_trace (state_of (setMask (fromJSON j) w2)) = l_trace w2 @ ts'"
      using setMask_extends_trace [of "fromJSON j" w2] by blast
    then have "\<exists>us. l_trace (state_of (setMask (fromJSON j) w2)) = [?first] @ us"
      by (simp add: ts)
    then have "\<exists>us. l_trace (state_of
        (case setMask (fromJSON j) w2 of
           Ok w' \<Rightarrow> assign (log ProxyOptions) w' | Throw x w' \<Rightarrow> Throw x w')) = [?first] @ us"
      by (rule then_log_extends_trace)
    moreover
    have "constructor env m n v opts =
        (case setMask (fromJSON j) w2 of
           Ok w' \<Rightarrow> assign (log ProxyOptions) w' | Throw x w' \<Rightarrow> Throw x w')"
      using \<open>opts = Some given\<close> Some w2
      by (simp add: constructor_def assign_def setId_closed_form blank_def
          cong: outcome.case_cong)
    ultimately show ?thesis
      by simp
  qed
qed

text \<open>
  C10. \<open>setId\<close> with a nil id stores that value as it is (no string is made of it) and
  fires \<open>idchange\<close> with the old and the new value, mirrored to the map first when the
  layer has one. The constructor calls \<open>setId\<close> on the new object whatever the id, so
  the first thing every construction does to the outside is to dispatch \<open>idchange\<close>
  with old value undefined, also when no id was given and also when the construction
  later fails on the mask.
\<close>

theorem setId_nil_still_fires_idchange:
  "(isNil v \<longrightarrow>
      setId env v w =
        Ok (w\<lparr>l_id := v,
              l_trace := l_trace w
                @ (if l_map w
                   then [MapOnLayerEvent
                           (stamp ''idchange'' [(''old'', PVal (l_id w)), (''new'', PVal v)])]
                   else [])
                @ [LocalDispatch ''idchange''
                     (Some (if l_map w
                            then stamp ''idchange'' [(''old'', PVal (l_id w)), (''new'', PVal v)]
                            else [(''old'', PVal (l_id w)), (''new'', PVal v)]))]\<rparr>)) \<and>
   (\<exists>rest. l_trace (state_of (constructor env m n v opts)) =
      LocalDispatch ''idchange''
        (Some [(''old'', PVal JUndefined),
               (''new'', PVal (if isNil v then v else JStr (ToString env v)))]) # rest)"
  using setId_closed_form [of env v w] constructor_trace [of env m n v opts]
  by simp

theorem setId_nil_still_fires_idchange_witness:
  "l_id (state_of (setId example_env JNull (detached_layer\<lparr>l_id := JStr ''roads''\<rparr>))) = JNull \<and>
   l_trace (state_of (setId example_env JNull (detached_layer\<lparr>l_id := JStr ''roads''\<rparr>))) =
     [LocalDispatch ''idchange'' (Some [(''old'', PVal (JStr ''roads'')), (''new'', PVal JNull)])] \<and>
   constructor example_env example_map 1 JUndefined None =
     Ok (detached_layer\<lparr>l_trace :=
       [LocalDispatch ''idchange'' (Some [(''old'', PVal JUndefined), (''new'', PVal JUndefined)]),
        ProxyOptions]\<rparr>)"
proof -
  let ?w = "detached_layer\<lparr>l_id := JStr ''roads''\<rparr>"
  have detached: "\<not> l_map ?w" and t: "l_trace ?w = []" and i: "l_id ?w = JStr ''roads''"
    by (simp_all add: detached_layer_def blank_def)
  from setId_nil_still_fires_idchange [of JNull example_env ?w]
  have "setId example_env JNull ?w =
      Ok (?w\<lparr>l_id := JNull,
            l_trace := [LocalDispatch ''idchange''
              (Some [(''old'', PVal (JStr ''roads'')), (''new'', PVal JNull)])]\<rparr>)"
    by (simp add: detached t i)
  then have c12: "l_id (state_of (setId example_env JNull ?w)) = JNull \<and>
      l_trace (state_of (setId example_env JNull ?w)) =
        [LocalDispatch ''idchange'' (Some [(''old'', PVal (JStr ''roads'')), (''new'', PVal JNull)])]"
    by simp
  have c3: "constructor example_env example_map 1 JUndefined None =
     Ok (detached_layer\<lparr>l_trace :=
       [LocalDispatch ''idchange'' (Some [(''old'', PVal JUndefined), (''new'', PVal JUndefined)]),
        ProxyOptions]\<rparr>)"
    by (simp add: constructor_def assign_def setId_closed_form blank_def log_def
        detached_layer_def)
  from c12 c3 show ?thesis
    by blast
qed

section \<open>Operations on a layer that lacks a map, a renderer or a mask\<close>

lemma onConfig_completes: "completes (onConfig env conf w)"
  by (simp add: onConfig_def Let_def guarded_def assign_def redraw_if_declared_eq)

lemma setOpacity_completes: "completes (setOpacity env v w)"
proof -
  obtain w1 where "onConfig env [(''opacity'', v)]
      (w\<lparr>l_options := (l_options w)\<lparr>o_opacity := v\<rparr>\<rparr>) = Ok w1"
    using onConfig_completes [of env "[(''opacity'', v)]" "w\<lparr>l_options := (l_options w)\<lparr>o_opacity := v\<rparr>\<rparr>"]
    by (cases "onConfig env [(''opacity'', v)] (w\<lparr>l_options := (l_options w)\<lparr>o_opacity := v\<rparr>\<rparr>)")
      auto
  then show ?thesis
    by (simp add: setOpacity_def config_opacity_def assign_def fire_closed_form)
qed

lemma bringToFront_completes: "completes (bringToFront w)"
  by (simp add: bringToFront_def Let_def setZIndex_closed_form)

lemma bringToBack_completes: "completes (bringToBack w)"
  by (simp add: bringToBack_def Let_def setZIndex_closed_form)

lemma show_completes: "completes (show_layer w)"
proof (cases "truthy (o_visible (l_options w))")
  case True
  then show ?thesis
    by (simp add: show_visible)
next
  case hidden: False
  show ?thesis
  proof (cases "l_renderer w = None \<or> \<not> l_map w")
    case True
    show ?thesis
      using show_sync [OF hidden True] by (simp add: fire_completes)
  next
    case False
    then show ?thesis
      using show_deferred [of w] hidden by simp
  qed
qed

lemma hide_completes: "completes (hide w)"
proof (cases "truthy (o_visible (l_options w))")
  case False
  then show ?thesis
    by (simp add: hide_hidden)
next
  case visible: True
  show ?thesis
  proof (cases "l_renderer w = None \<or> \<not> l_map w")
    case True
    show ?thesis
      using hide_sync [OF visible True] by (simp add: fire_completes)
  next
    case False
    then show ?thesis
      using hide_deferred [of w] visible by simp
  qed
qed

lemma remove_completes: "completes (remove w)"
  by (simp add: remove_def guarded_def map_call_def)

lemma removeMask_completes: "completes (removeMask w)"
  by (simp add: removeMask_def assign_def redraw_if_declared_eq)

lemma bindMap_completes: "completes (bindMap env m z w)"
  by (cases m)
    (simp_all add: bindMap_def assign_def guarded_def setZIndex_closed_form switchEvents_eq
      fire_closed_form log_def)

lemma doRemove_completes: "completes (doRemove env w)"
  by (cases "l_renderer w")
    (simp_all add: doRemove_def assign_def guarded_def switchEvents_eq renderer_call_def log_def)

lemma constructor_without_mask_completes:
  assumes "case opts of None \<Rightarrow> True | Some given \<Rightarrow> o_mask (c_options given) = None"
  shows "completes (constructor env m n v opts)"
  using assms
  by (cases opts)
    (simp_all add: constructor_def assign_def setId_closed_form setZIndex_closed_form
      Let_def blank_def)

text \<open>
  C9. Every operation of a layer other than \<open>setMask\<close> and \<open>load\<close> completes in every
  state of the layer, in particular without a map, without a renderer and without a
  mask; \<open>load\<close> on a layer without a map completes and changes nothing; and constructing
  a layer without a mask option completes.
\<close>

theorem operations_never_throw:
  "(\<not> is_setMask op \<and> op \<noteq> OpLoad \<longrightarrow> completes (exec env op w)) \<and>
   (\<not> l_map w \<longrightarrow> exec env OpLoad w = Ok w) \<and>
   ((case opts of None \<Rightarrow> True | Some given \<Rightarrow> o_mask (c_options given) = None) \<longrightarrow>
      completes (constructor env m n v opts))"
proof (intro conjI impI)
  assume "\<not> is_setMask op \<and> op \<noteq> OpLoad"
  then show "completes (exec env op w)"
    by (cases op)
      (simp_all add: setId_closed_form addTo_def assign_def setZIndex_closed_form
        setOpacity_completes bringToFront_completes bringToBack_completes show_completes
        hide_completes remove_completes removeMask_completes clearCollisionIndex_eq
        onConfig_completes bindMap_completes doRemove_completes fire_closed_form)
next
  assume "\<not> l_map w"
  then show "exec env OpLoad w = Ok w"
    by (simp add: load_detached)
next
  assume "case opts of None \<Rightarrow> True | Some given \<Rightarrow> o_mask (c_options given) = None"
  then show "completes (constructor env m n v opts)"
    by (rule constructor_without_mask_completes)
qed

theorem operations_never_throw_witness:
  "completes (exec example_env OpBringToFront detached_layer) \<and>
   completes (exec example_env OpRemoveMask detached_layer) \<and>
   completes (exec example_env (OpSetZIndex (Some 2)) detached_layer) \<and>
   completes (exec example_env OpShow attached_layer) \<and>
   completes (exec example_env OpDoRemove detached_layer) \<and>
   exec example_env OpLoad detached_layer = Ok detached_layer \<and>
   completes (constructor example_env example_map 1 (JStr ''roads'') None)"
proof -
  have detached: "\<not> l_map detached_layer"
    by (simp add: detached_layer_def blank_def)
  show ?thesis
    using operations_never_throw [where op = OpBringToFront and env = example_env
        and w = detached_layer and opts = None and m = example_map and n = 1
        and v = "JStr ''roads''"]
      operations_never_throw [where op = OpRemoveMask and env = example_env
        and w = detached_layer and opts = None]
      operations_never_throw [where op = "OpSetZIndex (Some 2)" and env = example_env
        and w = detached_layer and opts = None]
      operations_never_throw [where op = OpShow and env = example_env
        and w = attached_layer and opts = None]
      operations_never_throw [where op = OpDoRemove and env = example_env
        and w = detached_layer and opts = None]
      detached
    by simp
qed

section \<open>The life of the dedicated collision index\<close>

lemma same_index_refl [simp]: "same_index w w"
  by (simp add: same_index_def)

lemma same_index_trans: "same_index a b \<Longrightarrow> same_index b c \<Longrightarrow> same_index a c"
  by (simp add: same_index_def)

lemma same_index_block_Nil: "same_index w (state_of (block [] w))"
  by simp

lemma same_index_block_Cons:
  assumes first: "\<And>v. same_index v (state_of (s v))"
    and rest: "\<And>v. same_index v (state_of (block ss v))"
  shows "same_index w (state_of (block (s # ss) w))"
proof (cases "s w")
  case (Ok w')
  with first [of w] have "same_index w w'"
    by simp
  then have "same_index w (state_of (block ss w'))"
    using rest [of w'] by (rule same_index_trans)
  with Ok show ?thesis
    by (simp add: block.simps)
next
  case (Throw e w')
  with first [of w] show ?thesis
    by (simp add: block.simps)
qed

lemma same_index_assign:
  "(\<And>v. same_index v (f v)) \<Longrightarrow> same_index w (state_of (assign f w))"
  by (simp add: assign_def)

lemma same_index_fire: "same_index w (state_of (fire t p w))"
  by (simp add: fire_closed_form same_index_def)

lemma same_index_onConfig: "same_index w (state_of (onConfig env conf w))"
  by (simp add: onConfig_def Let_def guarded_def assign_def log_def redraw_if_declared_eq
      same_index_def)

lemma same_index_setOpacity: "same_index w (state_of (setOpacity env v w))"
  unfolding setOpacity_def config_opacity_def
  by (intro same_index_block_Cons same_index_block_Nil same_index_assign same_index_fire
      same_index_onConfig)
    (simp add: same_index_def)

lemma same_index_bringToFront: "same_index w (state_of (bringToFront w))"
  by (simp add: bringToFront_def Let_def setZIndex_closed_form same_index_def)

lemma same_index_bringToBack: "same_index w (state_of (bringToBack w))"
  by (simp add: bringToBack_def Let_def setZIndex_closed_form same_index_def)

lemma same_index_show: "same_index w (state_of (show_layer w))"
proof (cases "truthy (o_visible (l_options w))")
  case True
  then show ?thesis
    by (simp add: show_visible)
next
  case hidden: False
  show ?thesis
  proof (cases "l_renderer w = None \<or> \<not> l_map w")
    case True
    show ?thesis
      using show_sync [OF hidden True] by (simp add: fire_closed_form same_index_def)
  next
    case False
    then show ?thesis
      using show_deferred [of w] hidden by (simp add: same_index_def)
  qed
qed

lemma same_index_hide: "same_index w (state_of (hide w))"
proof (cases "truthy (o_visible (l_options w))")
  case False
  then show ?thesis
    by (simp add: hide_hidden)
next
  case visible: True
  show ?thesis
  proof (cases "l_renderer w = None \<or> \<not> l_map w")
    case True
    show ?thesis
      using hide_sync [OF visible True] by (simp add: fire_closed_form same_index_def)
  next
    case False
    then show ?thesis
      using hide_deferred [of w] visible by (simp add: same_index_def)
  qed
qed

lemma same_index_isVisible: "same_index w (snd (isVisible w))"
  by (simp add: isVisible_def Let_def same_index_def)

lemma same_index_setMask: "same_index w (state_of (setMask g w))"
proof (cases "(g_type g = ''Point'' \<and> g_isVectorMarker g) \<or> g_type g = ''Polygon'' \<or>
    g_type g = ''MultiPolygon''")
  case True
  show ?thesis
    using setMask_accepted [OF True, of w] by (simp add: same_index_def)
next
  case False
  show ?thesis
    using setMask_rejected [OF False, of w] by simp
qed

lemma same_index_removeMask: "same_index w (state_of (removeMask w))"
  by (simp add: removeMask_def assign_def redraw_if_declared_eq same_index_def)

lemma same_index_bindMap: "same_index w (state_of (bindMap env m z w))"
  by (cases m)
    (simp_all add: bindMap_def assign_def guarded_def setZIndex_closed_form switchEvents_eq
      fire_closed_form log_def same_index_def)

lemma same_index_load: "same_index w (state_of (load env w))"
proof (cases "l_map w")
  case False
  then show ?thesis
    by (simp add: load_detached)
next
  case attached: True
  show ?thesis
  proof (cases "e_onLoad env (log (Hook ''onLoad'') w)")
    case False
    with attached show ?thesis
      by (simp add: load_ceased log_def same_index_def)
  next
    case go: True
    show ?thesis
    proof (cases "e_getRendererClass env")
      case None
      show ?thesis
      proof (cases "l_renderer w")
        case none: None
        show ?thesis
          using load_without_registry [OF attached go None none]
          by (simp add: log_def same_index_def)
      next
        case (Some r)
        show ?thesis
          using load_without_registry_renderer_kept [OF attached go None Some]
          by (simp add: same_index_def)
      qed
    next
      case (Some reg)
      show ?thesis
      proof (cases "reg (o_renderer (l_options w))")
        case None
        show ?thesis
          using load_unknown_renderer [OF attached go Some None]
          by (simp add: log_def same_index_def)
      next
        case (Some c)
        show ?thesis
          using load_success [OF attached go \<open>e_getRendererClass env = Some reg\<close> Some]
          by (simp add: same_index_def)
      qed
    qed
  qed
qed

lemma exec_same_index:
  assumes "op \<noteq> OpDoRemove" and "op \<noteq> OpGetCollisionIndex" and "op \<noteq> OpClearCollisionIndex"
  shows "same_index w (state_of (exec env op w))"
  using assms
  by (cases op)
    (simp_all add: same_index_fire same_index_onConfig same_index_setOpacity
      same_index_bringToFront same_index_bringToBack same_index_show same_index_hide
      same_index_isVisible same_index_setMask same_index_removeMask same_index_bindMap
      same_index_load,
     simp_all add: setId_closed_form addTo_def assign_def log_def setZIndex_closed_form
      remove_def guarded_def map_call_def same_index_def)

lemma doRemove_discards_index:
  "l_collisionIndex (state_of (doRemove env w)) = None \<and>
   o_collisionScope (l_options (state_of (doRemove env w))) = o_collisionScope (l_options w)"
  by (cases "l_renderer w")
    (simp_all add: doRemove_def assign_def guarded_def switchEvents_eq renderer_call_def log_def)

lemma exec_scope:
  "o_collisionScope (l_options (state_of (exec env op w))) = o_collisionScope (l_options w)"
proof (cases "op = OpDoRemove \<or> op = OpGetCollisionIndex \<or> op = OpClearCollisionIndex")
  case False
  then show ?thesis
    using exec_same_index [of op w env] by (simp add: same_index_def)
next
  case True
  then show ?thesis
    by (cases "l_collisionIndex w")
      (auto simp add: doRemove_discards_index getCollisionIndex_def new_CollisionIndex_def
        getMap_def clearCollisionIndex_eq)
qed

lemma exec_index_exists:
  "l_collisionIndex (state_of (exec env op w)) \<noteq> None \<longleftrightarrow>
     op \<noteq> OpDoRemove \<and>
     (l_collisionIndex w \<noteq> None \<or>
      (op = OpGetCollisionIndex \<and> o_collisionScope (l_options w) = ''layer''))"
proof (cases "op = OpDoRemove \<or> op = OpGetCollisionIndex \<or> op = OpClearCollisionIndex")
  case False
  then show ?thesis
    using exec_same_index [of op w env] by (simp add: same_index_def)
next
  case True
  then show ?thesis
    by (cases "l_collisionIndex w"; cases "o_collisionScope (l_options w) = ''layer''";
        cases "l_map w")
      (auto simp add: doRemove_discards_index getCollisionIndex_def new_CollisionIndex_def
        getMap_def clearCollisionIndex_eq)
qed

lemma exec_index_kept:
  assumes "op \<noteq> OpDoRemove" and "l_collisionIndex w = Some ci"
  shows "map_option ci_ref (l_collisionIndex (state_of (exec env op w))) = Some (ci_ref ci)"
proof (cases "op = OpGetCollisionIndex \<or> op = OpClearCollisionIndex")
  case False
  with assms show ?thesis
    using exec_same_index [of op w env] by (simp add: same_index_def)
next
  case True
  with assms show ?thesis
    by (cases "o_collisionScope (l_options w) = ''layer''"; cases "l_map w")
      (auto simp add: getCollisionIndex_def getMap_def clearCollisionIndex_eq)
qed

lemma run_snoc: "run env (ops @ [op]) w = state_of (exec env op (run env ops w))"
  by (simp add: run_def)

lemma since_removal_snoc:
  "since_removal (ops @ [op]) = (if op = OpDoRemove then [] else op # since_removal ops)"
  by (simp add: since_removal_def)

lemma run_scope:
  "o_collisionScope (l_options (run env ops w)) = o_collisionScope (l_options w)"
proof (induction ops rule: rev_induct)
  case Nil
  then show ?case by (simp add: run_def)
next
  case (snoc op ops)
  then show ?case
    by (simp only: run_snoc exec_scope)
qed

lemma run_index_exists:
  "l_collisionIndex (run env ops w) \<noteq> None \<longleftrightarrow>
     (l_collisionIndex w \<noteq> None \<and> OpDoRemove \<notin> set ops) \<or>
     (o_collisionScope (l_options w) = ''layer'' \<and> OpGetCollisionIndex \<in> set (since_removal ops))"
proof (induction ops rule: rev_induct)
  case Nil
  then show ?case
    by (simp add: run_def since_removal_def)
next
  case (snoc op ops)
  have "l_collisionIndex (run env (ops @ [op]) w) \<noteq> None \<longleftrightarrow>
      op \<noteq> OpDoRemove \<and>
      (l_collisionIndex (run env ops w) \<noteq> None \<or>
       (op = OpGetCollisionIndex \<and> o_collisionScope (l_options w) = ''layer''))"
    by (simp only: run_snoc exec_index_exists run_scope)
  also have "\<dots> \<longleftrightarrow>
      op \<noteq> OpDoRemove \<and>
      (((l_collisionIndex w \<noteq> None \<and> OpDoRemove \<notin> set ops) \<or>
        (o_collisionScope (l_options w) = ''layer'' \<and>
         OpGetCollisionIndex \<in> set (since_removal ops))) \<or>
       (op = OpGetCollisionIndex \<and> o_collisionScope (l_options w) = ''layer''))"
    by (simp only: snoc.IH)
  also have "\<dots> \<longleftrightarrow>
      (l_collisionIndex w \<noteq> None \<and> OpDoRemove \<notin> set (ops @ [op])) \<or>
      (o_collisionScope (l_options w) = ''layer'' \<and>
       OpGetCollisionIndex \<in> set (since_removal (ops @ [op])))"
    by (cases "op = OpDoRemove") (auto simp add: since_removal_snoc)
  finally show ?case .
qed

lemma run_index_kept:
  assumes "OpDoRemove \<notin> set ops" and "l_collisionIndex w = Some ci"
  shows "map_option ci_ref (l_collisionIndex (run env ops w)) = Some (ci_ref ci)"
  using assms(1)
proof (induction ops rule: rev_induct)
  case Nil
  then show ?case
    by (simp add: run_def assms(2))
next
  case (snoc op ops)
  then have kept: "map_option ci_ref (l_collisionIndex (run env ops w)) = Some (ci_ref ci)"
    and op: "op \<noteq> OpDoRemove"
    by auto
  from kept obtain ci' where ci': "l_collisionIndex (run env ops w) = Some ci'"
    and ref: "ci_ref ci' = ci_ref ci"
    by auto
  show ?case
    using exec_index_kept [OF op ci', of env] by (simp add: run_snoc ref)
qed

lemma identical_instance_until_removed:
  assumes scope: "o_collisionScope (l_options w) = ''layer''" and "OpDoRemove \<notin> set ops"
  shows "map_option ci_ref (fst (getCollisionIndex (run env ops (snd (getCollisionIndex w))))) =
         map_option ci_ref (fst (getCollisionIndex w))"
proof -
  let ?w1 = "snd (getCollisionIndex w)"
  obtain ci where first: "fst (getCollisionIndex w) = Some ci"
    and stored: "l_collisionIndex ?w1 = Some ci"
    using scope
    by (cases "l_collisionIndex w") (simp_all add: getCollisionIndex_def new_CollisionIndex_def)
  have scope1: "o_collisionScope (l_options ?w1) = ''layer''"
    using scope
    by (cases "l_collisionIndex w") (simp_all add: getCollisionIndex_def new_CollisionIndex_def)
  have later_scope: "o_collisionScope (l_options (run env ops ?w1)) = ''layer''"
    by (simp add: run_scope scope1)
  obtain ci' where later: "l_collisionIndex (run env ops ?w1) = Some ci'"
    and ref: "ci_ref ci' = ci_ref ci"
    using run_index_kept [OF assms(2) stored, of env] by auto
  have "fst (getCollisionIndex (run env ops ?w1)) = Some ci'"
    using later_scope later by (simp add: getCollisionIndex_def)
  then show ?thesis
    by (simp add: first ref)
qed

text \<open>
  C7, as the code has it. With scope \<open>layer\<close>, \<open>getCollisionIndex()\<close> creates a fresh,
  empty index when the layer holds none and answers the held one otherwise, and a second
  call answers the same index and changes nothing. Whatever operations run on the layer
  in between, short of its removal, a later call answers the identical instance.
  \<open>_doRemove\<close> discards the dedicated index; no operation of the layer changes the scope
  option. So, from a layer without a dedicated index and after any sequence of
  operations, a dedicated index exists iff the scope is \<open>layer\<close> and the index was
  requested at least once since the last removal. With another scope
  \<open>getCollisionIndex()\<close> answers nil without a map and the map's shared index with one,
  and the layer is unchanged. \<open>clearCollisionIndex()\<close> empties the dedicated index when
  the scope is \<open>layer\<close> and one exists, keeping the instance, does nothing otherwise,
  and leaves the map as it is.
\<close>

theorem collision_index_scoping:
  "(o_collisionScope (l_options w) = ''layer'' \<longrightarrow>
      getCollisionIndex w =
        (case l_collisionIndex w of
           None \<Rightarrow>
             (Some \<lparr>ci_ref = l_fresh w, ci_boxes = []\<rparr>,
              w\<lparr>l_collisionIndex := Some \<lparr>ci_ref = l_fresh w, ci_boxes = []\<rparr>,
                 l_fresh := Suc (l_fresh w)\<rparr>)
         | Some ci \<Rightarrow> (Some ci, w)) \<and>
      getCollisionIndex (snd (getCollisionIndex w)) =
        (fst (getCollisionIndex w), snd (getCollisionIndex w))) \<and>
   (o_collisionScope (l_options w) = ''layer'' \<and> OpDoRemove \<notin> set ops \<longrightarrow>
      map_option ci_ref (fst (getCollisionIndex (run env ops (snd (getCollisionIndex w))))) =
      map_option ci_ref (fst (getCollisionIndex w))) \<and>
   l_collisionIndex (state_of (doRemove env w)) = None \<and>
   o_collisionScope (l_options (run env ops w)) = o_collisionScope (l_options w) \<and>
   (l_collisionIndex w = None \<longrightarrow>
      (l_collisionIndex (run env ops w) \<noteq> None \<longleftrightarrow>
         o_collisionScope (l_options w) = ''layer'' \<and>
         OpGetCollisionIndex \<in> set (since_removal ops))) \<and>
   (o_collisionScope (l_options w) \<noteq> ''layer'' \<longrightarrow>
      getCollisionIndex w =
        (if l_map w then Some (m_collisionIndex (the_map w)) else None, w)) \<and>
   clearCollisionIndex w =
     Ok (case l_collisionIndex w of
           None \<Rightarrow> w
         | Some ci \<Rightarrow>
             if o_collisionScope (l_options w) = ''layer''
             then w\<lparr>l_collisionIndex := Some (ci\<lparr>ci_boxes := []\<rparr>),
                    l_trace := l_trace w @ [CollisionIndexClear (ci_ref ci)]\<rparr>
             else w) \<and>
   the_map (state_of (clearCollisionIndex w)) = the_map w"
proof -
  have shared: "the_map (state_of (clearCollisionIndex w)) = the_map w"
    by (cases "l_collisionIndex w") (simp_all add: clearCollisionIndex_eq)
  show ?thesis
    using getCollisionIndex_layer_scope [of w] getCollisionIndex_cached [of w]
      identical_instance_until_removed [of w ops env] doRemove_discards_index [of env w]
      run_scope [of env ops w] run_index_exists [of env ops w]
      getCollisionIndex_other_scope [of w] clearCollisionIndex_eq [of w] shared
    by blast
qed


theorem collision_index_scoping_witness:
  "fst (getCollisionIndex detached_layer) = Some \<lparr>ci_ref = 1, ci_boxes = []\<rparr> \<and>
   fst (getCollisionIndex (snd (getCollisionIndex detached_layer))) =
     Some \<lparr>ci_ref = 1, ci_boxes = []\<rparr> \<and>
   map_option ci_ref
     (fst (getCollisionIndex
        (run example_env [OpSetZIndex (Some 2), OpClearCollisionIndex, OpRemoveMask]
           (snd (getCollisionIndex detached_layer))))) = Some 1 \<and>
   l_collisionIndex (state_of (doRemove example_env layer_scoped)) = None \<and>
   l_collisionIndex
     (run example_env [OpGetCollisionIndex, OpDoRemove, OpClearCollisionIndex] detached_layer) =
     None \<and>
   l_collisionIndex
     (run example_env [OpDoRemove, OpGetCollisionIndex, OpBringToFront] detached_layer) \<noteq>
     None \<and>
   l_collisionIndex (run example_env [OpGetCollisionIndex, OpGetCollisionIndex] map_scoped) =
     None \<and>
   fst (getCollisionIndex map_scoped) = Some \<lparr>ci_ref = 0, ci_boxes = [7]\<rparr> \<and>
   l_collisionIndex (state_of (clearCollisionIndex layer_scoped)) =
     Some \<lparr>ci_ref = 4, ci_boxes = []\<rparr> \<and>
   clearCollisionIndex map_scoped = Ok map_scoped"
proof -
  have scope: "o_collisionScope (l_options detached_layer) = ''layer''"
    and none: "l_collisionIndex detached_layer = None"
    and fresh: "l_fresh detached_layer = 1"
    by (simp_all add: detached_layer_def blank_def default_options_def)
  have scope': "o_collisionScope (l_options map_scoped) \<noteq> ''layer''"
    and none': "l_collisionIndex map_scoped = None" and m': "l_map map_scoped"
    and shared: "m_collisionIndex (the_map map_scoped) = \<lparr>ci_ref = 0, ci_boxes = [7]\<rparr>"
    by (simp_all add: map_scoped_def attached_layer_def blank_def default_options_def
        example_map_def)
  have scope'': "o_collisionScope (l_options layer_scoped) = ''layer''"
    and some'': "l_collisionIndex layer_scoped = Some \<lparr>ci_ref = 4, ci_boxes = [1, 2]\<rparr>"
    by (simp_all add: layer_scoped_def detached_layer_def blank_def default_options_def)
  note d = collision_index_scoping [where w = detached_layer and env = example_env]
  note m = collision_index_scoping [where w = map_scoped and env = example_env]
  note l = collision_index_scoping [where w = layer_scoped and env = example_env]
  have c1: "fst (getCollisionIndex detached_layer) = Some \<lparr>ci_ref = 1, ci_boxes = []\<rparr>"
    using d [where ops = "[]"] scope none fresh by simp
  have c2: "fst (getCollisionIndex (snd (getCollisionIndex detached_layer))) =
     Some \<lparr>ci_ref = 1, ci_boxes = []\<rparr>"
    by (simp only: d [where ops = "[]", THEN conjunct1, THEN mp, OF scope, THEN conjunct2]
        fst_conv c1)
  have quiet: "o_collisionScope (l_options detached_layer) = ''layer'' \<and>
      OpDoRemove \<notin> set [OpSetZIndex (Some 2), OpClearCollisionIndex, OpRemoveMask]"
    using scope by simp
  have c3: "map_option ci_ref
     (fst (getCollisionIndex
        (run example_env [OpSetZIndex (Some 2), OpClearCollisionIndex, OpRemoveMask]
           (snd (getCollisionIndex detached_layer))))) = Some 1"
    by (simp only: d [where ops = "[OpSetZIndex (Some 2), OpClearCollisionIndex, OpRemoveMask]",
          THEN conjunct2, THEN conjunct1, THEN mp, OF quiet] c1)
      simp
  have c4: "l_collisionIndex (state_of (doRemove example_env layer_scoped)) = None"
    by (rule l [where ops = "[]", THEN conjunct2, THEN conjunct2, THEN conjunct1])
  have "(l_collisionIndex
     (run example_env [OpGetCollisionIndex, OpDoRemove, OpClearCollisionIndex] detached_layer) \<noteq>
     None) = False"
    by (subst d [where ops = "[OpGetCollisionIndex, OpDoRemove, OpClearCollisionIndex]",
          THEN conjunct2, THEN conjunct2, THEN conjunct2, THEN conjunct2, THEN conjunct1,
          THEN mp, OF none])
      (simp add: since_removal_def)
  then have c5: "l_collisionIndex
     (run example_env [OpGetCollisionIndex, OpDoRemove, OpClearCollisionIndex] detached_layer) =
     None"
    by blast
  have c6: "l_collisionIndex
     (run example_env [OpDoRemove, OpGetCollisionIndex, OpBringToFront] detached_layer) \<noteq>
     None"
    by (subst d [where ops = "[OpDoRemove, OpGetCollisionIndex, OpBringToFront]",
          THEN conjunct2, THEN conjunct2, THEN conjunct2, THEN conjunct2, THEN conjunct1,
          THEN mp, OF none])
      (simp add: since_removal_def scope)
  have "(l_collisionIndex
     (run example_env [OpGetCollisionIndex, OpGetCollisionIndex] map_scoped) \<noteq> None) = False"
    by (subst m [where ops = "[OpGetCollisionIndex, OpGetCollisionIndex]",
          THEN conjunct2, THEN conjunct2, THEN conjunct2, THEN conjunct2, THEN conjunct1,
          THEN mp, OF none'])
      (simp add: scope')
  then have c7: "l_collisionIndex
     (run example_env [OpGetCollisionIndex, OpGetCollisionIndex] map_scoped) = None"
    by blast
  have c8: "fst (getCollisionIndex map_scoped) = Some \<lparr>ci_ref = 0, ci_boxes = [7]\<rparr>"
    using m [where ops = "[]"] scope' m' shared by simp
  have c9: "l_collisionIndex (state_of (clearCollisionIndex layer_scoped)) =
     Some \<lparr>ci_ref = 4, ci_boxes = []\<rparr>"
    using l [where ops = "[]"] scope'' some'' by simp
  have c10: "clearCollisionIndex map_scoped = Ok map_scoped"
    using m [where ops = "[]"] scope' none' by simp
  from c1 c2 c3 c4 c5 c6 c7 c8 c9 c10 show ?thesis
    by blast
qed

text \<open>
  The index does not outlive a removal: a layer of scope \<open>layer\<close> whose index was
  requested and which is then removed holds no dedicated index, although the scope is
  \<open>layer\<close> and the index has been requested; the next request answers another instance
  than the first one.
\<close>

theorem index_discarded_by_removal_counterexample:
  "o_collisionScope
     (l_options (run example_env [OpGetCollisionIndex, OpDoRemove] detached_layer)) = ''layer'' \<and>
   fst (getCollisionIndex detached_layer) = Some \<lparr>ci_ref = 1, ci_boxes = []\<rparr> \<and>
   l_collisionIndex (run example_env [OpGetCollisionIndex, OpDoRemove] detached_layer) = None \<and>
   fst (getCollisionIndex (run example_env [OpGetCollisionIndex, OpDoRemove] detached_layer)) =
     Some \<lparr>ci_ref = 2, ci_boxes = []\<rparr>"
  by (simp add: run_def getCollisionIndex_def new_CollisionIndex_def doRemove_def assign_def
      guarded_def switchEvents_eq renderer_call_def log_def detached_layer_def blank_def
      default_options_def Let_def)

end
